theory Spec2Isabelle
  imports Complex_Main
begin

section \<open>JavaScript values and strings\<close>

text \<open>
  The services exchange parsed JSON (\<^verbatim>\<open>any\<close> in the TypeScript). A value is what
  \<^verbatim>\<open>JSON.parse\<close> can return, or \<^verbatim>\<open>undefined\<close> (an absent property).
  Strings are lists of 8-bit characters: the development covers texts whose code units
  lie below 256. Numbers carry the exact decimal value of their literal (the IEEE
  rounding of the engine is not modelled; no property below depends on a number).
  An object is the list of its own properties in the engine's enumeration order.
\<close>

datatype jsval =
    JUndefined
  | JNull
  | JBool bool
  | JNum rat
  | JStr string
  | JArr "jsval list"
  | JObj "(string \<times> jsval) list"

text \<open>An exception in flight: an \<^verbatim>\<open>Error\<close> with its message, or a \<^verbatim>\<open>TypeError\<close>
  raised by the engine: reading a property of \<^verbatim>\<open>null\<close>, converting an object that has no
  primitive value, calling a method without a receiver, or calling what is not a
  function. The wording of its message is the engine's.\<close>

datatype type_error = ReadOfNull string | NoPrimitive | NoReceiver string | NotAFunction string

datatype exn = Error string | TypeError type_error

text \<open>
  What the engine decides and the repository does not: the property names found on
  the built-in prototypes (\<^verbatim>\<open>Object.prototype\<close>, \<^verbatim>\<open>Array.prototype\<close>), the text a
  built-in inherited under a name is rendered as, the text of a number and the message
  of a \<^verbatim>\<open>TypeError\<close>.
\<close>

record host =
  objectProto :: "string list"
  arrayProto :: "string list"
  nativeText :: "string \<Rightarrow> string"
  numberText :: "rat \<Rightarrow> string"
  typeErrorText :: "type_error \<Rightarrow> string"

fun message :: "host \<Rightarrow> exn \<Rightarrow> string" where
  "message h (Error m) = m"
| "message h (TypeError e) = typeErrorText h e"

text \<open>\<^verbatim>\<open>ToBoolean\<close>: what \<^verbatim>\<open>if (v)\<close>, \<^verbatim>\<open>!v\<close>, \<^verbatim>\<open>v && w\<close> and \<^verbatim>\<open>v || w\<close> test.\<close>

fun truthy :: "jsval \<Rightarrow> bool" where
  "truthy JUndefined = False"
| "truthy JNull = False"
| "truthy (JBool b) = b"
| "truthy (JNum r) = (r \<noteq> 0)"
| "truthy (JStr s) = (s \<noteq> [])"
| "truthy (JArr xs) = True"
| "truthy (JObj ms) = True"

definition is_digit :: "char \<Rightarrow> bool" where
  "is_digit c \<longleftrightarrow> (48::int) \<le> of_char c \<and> of_char c \<le> (57::int)"

definition digit_val :: "char \<Rightarrow> int" where
  "digit_val c = of_char c - 48"

definition digits_val :: "string \<Rightarrow> int" where
  "digits_val ds = foldl (\<lambda>n c. 10 * n + digit_val c) 0 ds"

text \<open>An array index as a property key: the canonical decimal numeral of a number
  below \<open>2^32 - 1\<close>.\<close>

definition array_index :: "string \<Rightarrow> int option" where
  "array_index k =
     (if k \<noteq> [] \<and> list_all is_digit k \<and> (hd k = CHR ''0'' \<longrightarrow> length k = 1)
         \<and> digits_val k < 4294967295
      then Some (digits_val k) else None)"

text \<open>Own properties enumerate with the array indices first, ascending, then the other
  keys in the order of their creation; defining a key again keeps its place.\<close>

definition comes_before :: "string \<Rightarrow> string \<Rightarrow> bool" where
  "comes_before k k' =
     (case array_index k of
        None \<Rightarrow> False
      | Some i \<Rightarrow> (case array_index k' of None \<Rightarrow> True | Some j \<Rightarrow> i < j))"

fun obj_put :: "string \<Rightarrow> jsval \<Rightarrow> (string \<times> jsval) list \<Rightarrow> (string \<times> jsval) list" where
  "obj_put k v [] = [(k, v)]"
| "obj_put k v ((k', v') # ms) =
     (if k = k' then (k, v) # ms
      else if comes_before k k' then (k, v) # (k', v') # ms
      else (k', v') # obj_put k v ms)"

section \<open>\<^verbatim>\<open>JSON.parse\<close>\<close>

text \<open>
  The grammar of ECMA-404, as \<^verbatim>\<open>JSON.parse\<close> reads it: a lexer over the characters,
  then a stack machine over the tokens. \<open>None\<close> is the \<^verbatim>\<open>SyntaxError\<close>. Both are total
  by recursion on the input, so a \<open>None\<close> is always a rejected text.
\<close>

definition json_ws :: "char \<Rightarrow> bool" where
  "json_ws c \<longleftrightarrow> c = CHR '' '' \<or> c = CHR 0x09 \<or> c = CHR 0x0A \<or> c = CHR 0x0D"

definition hex_val :: "char \<Rightarrow> int option" where
  "hex_val c =
     (let n = (of_char c :: int) in
      if 48 \<le> n \<and> n \<le> 57 then Some (n - 48)
      else if 65 \<le> n \<and> n \<le> 70 then Some (n - 55)
      else if 97 \<le> n \<and> n \<le> 102 then Some (n - 87)
      else None)"

definition unescape :: "char \<Rightarrow> char option" where
  "unescape e =
     (if e = CHR 0x22 then Some (CHR 0x22)
      else if e = CHR 0x5C then Some (CHR 0x5C)
      else if e = CHR ''/'' then Some (CHR ''/'')
      else if e = CHR ''b'' then Some (CHR 0x08)
      else if e = CHR ''f'' then Some (CHR 0x0C)
      else if e = CHR ''n'' then Some (CHR 0x0A)
      else if e = CHR ''r'' then Some (CHR 0x0D)
      else if e = CHR ''t'' then Some (CHR 0x09)
      else None)"

text \<open>The characters of a string literal after its opening quote, and the rest of the
  text after its closing quote. An escape \<^verbatim>\<open>\uXXXX\<close> above \<open>00FF\<close> has no image among
  the 8-bit characters and is outside the texts covered.\<close>

definition hex_byte :: "char \<Rightarrow> char \<Rightarrow> char \<Rightarrow> char \<Rightarrow> char option" where
  "hex_byte h1 h2 h3 h4 =
     (case (hex_val h1, hex_val h2, hex_val h3, hex_val h4) of
        (Some a, Some b, Some c, Some d) \<Rightarrow>
          (if a = 0 \<and> b = 0 then Some (char_of (16 * c + d)) else None)
      | _ \<Rightarrow> None)"

definition cons_char :: "char \<Rightarrow> (string \<times> string) option \<Rightarrow> (string \<times> string) option" where
  "cons_char c = map_option (\<lambda>(s, r). (c # s, r))"

fun lex_string :: "string \<Rightarrow> (string \<times> string) option"
  and lex_escape :: "string \<Rightarrow> (string \<times> string) option"
  and lex_unicode :: "string \<Rightarrow> (string \<times> string) option" where
  "lex_string [] = None"
| "lex_string (c # cs) =
     (if c = CHR 0x22 then Some ([], cs)
      else if c = CHR 0x5C then lex_escape cs
      else if (of_char c :: int) < 32 then None
      else cons_char c (lex_string cs))"
| "lex_escape [] = None"
| "lex_escape (e # cs) =
     (if e = CHR ''u'' then lex_unicode cs
      else (case unescape e of None \<Rightarrow> None | Some x \<Rightarrow> cons_char x (lex_string cs)))"
| "lex_unicode (h1 # h2 # h3 # h4 # cs) =
     (case hex_byte h1 h2 h3 h4 of None \<Rightarrow> None | Some x \<Rightarrow> cons_char x (lex_string cs))"
| "lex_unicode _ = None"

definition num_char :: "char \<Rightarrow> bool" where
  "num_char c \<longleftrightarrow> is_digit c \<or> c = CHR ''-'' \<or> c = CHR ''+'' \<or> c = CHR ''.''
     \<or> c = CHR ''e'' \<or> c = CHR ''E''"

text \<open>The value of a number literal \<^verbatim>\<open>-? int frac? exp?\<close>; \<open>None\<close> when the characters
  are not one.\<close>

definition exponent_val :: "string \<Rightarrow> int option" where
  "exponent_val s =
     (case s of
        [] \<Rightarrow> Some 0
      | e # r \<Rightarrow>
          (if e = CHR ''e'' \<or> e = CHR ''E'' then
             (let neg = (r \<noteq> [] \<and> hd r = CHR ''-'');
                  ds = (if r \<noteq> [] \<and> (hd r = CHR ''-'' \<or> hd r = CHR ''+'') then tl r else r)
              in if ds \<noteq> [] \<and> list_all is_digit ds
                 then Some (if neg then - digits_val ds else digits_val ds)
                 else None)
           else None))"

definition number_value :: "string \<Rightarrow> rat option" where
  "number_value lit =
     (let neg = (lit \<noteq> [] \<and> hd lit = CHR ''-'');
          s1 = (if neg then tl lit else lit);
          ip = takeWhile is_digit s1;
          s2 = dropWhile is_digit s1;
          dot = (s2 \<noteq> [] \<and> hd s2 = CHR ''.'');
          fp = (if dot then takeWhile is_digit (tl s2) else []);
          s3 = (if dot then dropWhile is_digit (tl s2) else s2)
      in if ip = [] \<or> (hd ip = CHR ''0'' \<and> length ip \<noteq> 1) \<or> (dot \<and> fp = []) then None
         else
           (case exponent_val s3 of
              None \<Rightarrow> None
            | Some e \<Rightarrow>
                (let m = (of_int (digits_val (ip @ fp)) :: rat) / 10 ^ length fp;
                     v = (if 0 \<le> e then m * 10 ^ nat e else m / 10 ^ nat (- e))
                 in Some (if neg then - v else v))))"

fun strip_prefix :: "string \<Rightarrow> string \<Rightarrow> string option" where
  "strip_prefix [] s = Some s"
| "strip_prefix (p # ps) [] = None"
| "strip_prefix (p # ps) (c # cs) = (if p = c then strip_prefix ps cs else None)"

datatype token = TLBrace | TRBrace | TLBrack | TRBrack | TColon | TComma | TValue jsval

definition lex_literal :: "string \<Rightarrow> (jsval \<times> string) option" where
  "lex_literal s =
     (case strip_prefix ''true'' s of
        Some r \<Rightarrow> Some (JBool True, r)
      | None \<Rightarrow>
          (case strip_prefix ''false'' s of
             Some r \<Rightarrow> Some (JBool False, r)
           | None \<Rightarrow>
               (case strip_prefix ''null'' s of
                  Some r \<Rightarrow> Some (JNull, r)
                | None \<Rightarrow> None)))"

lemma cons_char_Some: "cons_char c x = Some (s, r) \<longleftrightarrow> (\<exists>s'. x = Some (s', r) \<and> s = c # s')"
  by (cases x) (auto simp: cons_char_def)

lemma lex_string_lengths:
  "(\<forall>s r. lex_string cs = Some (s, r) \<longrightarrow> length r < length cs)"
  "(\<forall>s r. lex_escape cs = Some (s, r) \<longrightarrow> length r < length cs)"
  "(\<forall>s r. lex_unicode cs = Some (s, r) \<longrightarrow> length r < length cs)"
  by (induction cs and cs and cs rule: lex_string_lex_escape_lex_unicode.induct)
    (auto simp: cons_char_Some split: if_splits option.splits)

lemma lex_string_length: "lex_string cs = Some (s, r) \<Longrightarrow> length r < length cs"
  using lex_string_lengths(1) by blast

lemma strip_prefix_length: "strip_prefix p s = Some r \<Longrightarrow> length r + length p = length s"
  by (induction p s rule: strip_prefix.induct) (auto split: if_splits)

lemma lex_literal_length: "lex_literal s = Some (v, r) \<Longrightarrow> length r < length s"
  by (auto simp: lex_literal_def split: option.splits dest!: strip_prefix_length)

function lex :: "string \<Rightarrow> token list option" where
  "lex [] = Some []"
| "lex (c # cs) =
     (if json_ws c then lex cs
      else if c = CHR ''{'' then map_option (Cons TLBrace) (lex cs)
      else if c = CHR ''}'' then map_option (Cons TRBrace) (lex cs)
      else if c = CHR ''['' then map_option (Cons TLBrack) (lex cs)
      else if c = CHR '']'' then map_option (Cons TRBrack) (lex cs)
      else if c = CHR '':'' then map_option (Cons TColon) (lex cs)
      else if c = CHR '','' then map_option (Cons TComma) (lex cs)
      else if c = CHR 0x22 then
        (case lex_string cs of
           None \<Rightarrow> None
         | Some (s, r) \<Rightarrow> map_option (Cons (TValue (JStr s))) (lex r))
      else if c = CHR ''-'' \<or> is_digit c then
        (case number_value (c # takeWhile num_char cs) of
           None \<Rightarrow> None
         | Some x \<Rightarrow> map_option (Cons (TValue (JNum x))) (lex (dropWhile num_char cs)))
      else
        (case lex_literal (c # cs) of
           None \<Rightarrow> None
         | Some (v, r) \<Rightarrow> map_option (Cons (TValue v)) (lex r)))"
  by pat_completeness auto
termination
proof (relation "measure length", goal_cases)
  case 1
  then show ?case by simp
next
  case (9 c cs x2 s r)
  then show ?case by (auto dest: lex_string_length)
next
  case (10 c cs x)
  then show ?case by (simp add: le_imp_less_Suc length_dropWhile_le)
next
  case (11 c cs x2 v r)
  then show ?case by (auto dest: lex_literal_length)
qed simp_all

text \<open>The parser's stack: an open array with its elements so far, or an open object
  with its members so far and the key that awaits its value.\<close>

datatype frame = FArr "jsval list" | FObj "(string \<times> jsval) list" "string option"

datatype expect = EValue | EValueOrClose | EKeyOrClose | EKey | EColon | EAfter | EDone jsval

fun deliver :: "jsval \<Rightarrow> frame list \<Rightarrow> (expect \<times> frame list) option" where
  "deliver v [] = Some (EDone v, [])"
| "deliver v (FArr xs # st) = Some (EAfter, FArr (xs @ [v]) # st)"
| "deliver v (FObj ms (Some k) # st) = Some (EAfter, FObj (obj_put k v ms) None # st)"
| "deliver v (FObj ms None # st) = None"

fun open_value :: "token \<Rightarrow> frame list \<Rightarrow> (expect \<times> frame list) option" where
  "open_value (TValue v) st = deliver v st"
| "open_value TLBrack st = Some (EValueOrClose, FArr [] # st)"
| "open_value TLBrace st = Some (EKeyOrClose, FObj [] None # st)"
| "open_value _ st = None"

fun take_key :: "token \<Rightarrow> frame list \<Rightarrow> (expect \<times> frame list) option" where
  "take_key (TValue (JStr k)) (FObj ms None # st) = Some (EColon, FObj ms (Some k) # st)"
| "take_key _ _ = None"

fun step :: "expect \<Rightarrow> frame list \<Rightarrow> token \<Rightarrow> (expect \<times> frame list) option" where
  "step EValue st t = open_value t st"
| "step EValueOrClose st t =
     (case (t, st) of
        (TRBrack, FArr xs # st') \<Rightarrow> deliver (JArr xs) st'
      | _ \<Rightarrow> open_value t st)"
| "step EKeyOrClose st t =
     (case (t, st) of
        (TRBrace, FObj ms None # st') \<Rightarrow> deliver (JObj ms) st'
      | _ \<Rightarrow> take_key t st)"
| "step EKey st t = take_key t st"
| "step EColon st t = (case t of TColon \<Rightarrow> Some (EValue, st) | _ \<Rightarrow> None)"
| "step EAfter st t =
     (case (t, st) of
        (TComma, FArr xs # st') \<Rightarrow> Some (EValue, st)
      | (TComma, FObj ms None # st') \<Rightarrow> Some (EKey, st)
      | (TRBrack, FArr xs # st') \<Rightarrow> deliver (JArr xs) st'
      | (TRBrace, FObj ms None # st') \<Rightarrow> deliver (JObj ms) st'
      | _ \<Rightarrow> None)"
| "step (EDone v) st t = None"

fun run :: "expect \<Rightarrow> frame list \<Rightarrow> token list \<Rightarrow> jsval option" where
  "run e st [] = (case e of EDone v \<Rightarrow> Some v | _ \<Rightarrow> None)"
| "run e st (t # ts) =
     (case step e st t of
        None \<Rightarrow> None
      | Some (e', st') \<Rightarrow> run e' st' ts)"

definition JSON_parse :: "string \<Rightarrow> jsval option" where
  "JSON_parse text = (case lex text of None \<Rightarrow> None | Some ts \<Rightarrow> run EValue [] ts)"

section \<open>String operations of the engine\<close>

text \<open>\<^verbatim>\<open>s.indexOf(c)\<close> and \<^verbatim>\<open>s.lastIndexOf(c)\<close> for a one-character pattern: the index,
  or \<open>-1\<close>.\<close>

definition indexOf :: "string \<Rightarrow> char \<Rightarrow> int" where
  "indexOf s c = (if c \<in> set s then int (length (takeWhile (\<lambda>x. x \<noteq> c) s)) else - 1)"

definition lastIndexOf :: "string \<Rightarrow> char \<Rightarrow> int" where
  "lastIndexOf s c =
     (if c \<in> set s then int (length s) - 1 - int (length (takeWhile (\<lambda>x. x \<noteq> c) (rev s)))
      else - 1)"

text \<open>\<^verbatim>\<open>s.substring(a, b)\<close>: both ends are clamped to the string and swapped when out of
  order.\<close>

definition substring :: "string \<Rightarrow> int \<Rightarrow> int \<Rightarrow> string" where
  "substring s a b =
     (let n = int (length s);
          a' = max 0 (min a n);
          b' = max 0 (min b n);
          lo = min a' b';
          hi = max a' b'
      in take (nat (hi - lo)) (drop (nat lo) s))"

text \<open>The white space of \<^verbatim>\<open>\s\<close> and of \<^verbatim>\<open>trim()\<close>, among the 8-bit characters.\<close>

definition js_space :: "char \<Rightarrow> bool" where
  "js_space c \<longleftrightarrow> c = CHR '' '' \<or> c = CHR 0x09 \<or> c = CHR 0x0A \<or> c = CHR 0x0B \<or> c = CHR 0x0C
     \<or> c = CHR 0x0D \<or> c = CHR 0xA0"

definition trim :: "string \<Rightarrow> string" where
  "trim s = rev (dropWhile js_space (rev (dropWhile js_space s)))"

text \<open>The first index at which \<open>p\<close> occurs in \<open>s\<close> (\<^verbatim>\<open>StringIndexOf\<close> from 0), and
  \<^verbatim>\<open>s.includes(p)\<close>.\<close>

fun index_of :: "string \<Rightarrow> string \<Rightarrow> nat option" where
  "index_of p [] = (if p = [] then Some 0 else None)"
| "index_of p (c # cs) =
     (if take (length p) (c # cs) = p then Some 0 else map_option Suc (index_of p cs))"

definition js_includes :: "string \<Rightarrow> string \<Rightarrow> bool" where
  "js_includes s p \<longleftrightarrow> index_of p s \<noteq> None"

text \<open>
  \<^verbatim>\<open>GetSubstitution\<close> for a string pattern (no captures): in the replacement text,
  \<^verbatim>\<open>$$\<close> is a dollar sign, \<^verbatim>\<open>$&\<close> the matched text, \<^verbatim>\<open>$`\<close> the text before the match and
  \<^verbatim>\<open>$'\<close> the text after it; every other character, a dollar sign before anything else
  included, stands for itself.
\<close>

fun getSubstitution :: "string \<Rightarrow> string \<Rightarrow> string \<Rightarrow> string \<Rightarrow> string" where
  "getSubstitution matched pre post [] = []"
| "getSubstitution matched pre post [c] = [c]"
| "getSubstitution matched pre post (c # d # r) =
     (if c = CHR ''$'' \<and> d = CHR ''$'' then CHR ''$'' # getSubstitution matched pre post r
      else if c = CHR ''$'' \<and> d = CHR ''&'' then matched @ getSubstitution matched pre post r
      else if c = CHR ''$'' \<and> d = CHR 0x60 then pre @ getSubstitution matched pre post r
      else if c = CHR ''$'' \<and> d = CHR 0x27 then post @ getSubstitution matched pre post r
      else c # getSubstitution matched pre post (d # r))"

text \<open>\<^verbatim>\<open>s.replace(p, r)\<close> with a string pattern and a string replacement: the first
  occurrence only.\<close>

definition js_replace :: "string \<Rightarrow> string \<Rightarrow> string \<Rightarrow> string" where
  "js_replace s p r =
     (case index_of p s of
        None \<Rightarrow> s
      | Some i \<Rightarrow>
          (let pre = take i s; post = drop (i + length p) s
           in pre @ getSubstitution p pre post r @ post))"

text \<open>
  \<^verbatim>\<open>s.replace(/re/g, rep)\<close> for a pattern that never matches the empty string and a
  replacement without dollar signs. The pattern is given by its matcher: the length of
  the match that starts at the head of the text, if there is one. The scan tries each
  position from the left and resumes after a match.
\<close>

function greplace :: "(string \<Rightarrow> nat option) \<Rightarrow> string \<Rightarrow> string \<Rightarrow> string" where
  "greplace m rep [] = []"
| "greplace m rep (c # cs) =
     (case m (c # cs) of
        None \<Rightarrow> c # greplace m rep cs
      | Some n \<Rightarrow> rep @ greplace m rep (drop (n - 1) cs))"
  by pat_completeness auto
termination
  by (relation "measure (\<lambda>(m, rep, s). length s)") auto

text \<open>\<^verbatim>\<open>ToString\<close> of a parsed value, as \<^verbatim>\<open>includes\<close> and \<^verbatim>\<open>replace\<close> apply it to their
  arguments. An array joins its elements with commas (\<^verbatim>\<open>null\<close> as the empty string); a
  plain object is \<^verbatim>\<open>[object Object]\<close>, unless an own \<^verbatim>\<open>toString\<close> property hides the
  inherited method, which makes the conversion a \<^verbatim>\<open>TypeError\<close> (\<open>None\<close>).\<close>

fun ToString :: "host \<Rightarrow> jsval \<Rightarrow> string option"
  and join_elems :: "host \<Rightarrow> jsval list \<Rightarrow> string option" where
  "ToString h JUndefined = Some ''undefined''"
| "ToString h JNull = Some ''null''"
| "ToString h (JBool b) = Some (if b then ''true'' else ''false'')"
| "ToString h (JNum r) = Some (numberText h r)"
| "ToString h (JStr s) = Some s"
| "ToString h (JArr xs) = join_elems h xs"
| "ToString h (JObj ms) =
     (if ''toString'' \<in> set (map fst ms) then None else Some ''[object Object]'')"
| "join_elems h [] = Some []"
| "join_elems h (x # xs) =
     (case (if x = JNull \<or> x = JUndefined then Some [] else ToString h x) of
        None \<Rightarrow> None
      | Some t \<Rightarrow>
          (if xs = [] then Some t
           else (case join_elems h xs of None \<Rightarrow> None | Some u \<Rightarrow> Some (t @ '','' @ u))))"

text \<open>Reading one of the properties \<^verbatim>\<open>editMode\<close>, \<^verbatim>\<open>fullCode\<close>, \<^verbatim>\<open>edits\<close>,
  \<^verbatim>\<open>instructions\<close>, \<^verbatim>\<open>search\<close>, \<^verbatim>\<open>replace\<close> of a value other than \<^verbatim>\<open>null\<close>: the own
  property of an object, \<^verbatim>\<open>undefined\<close> otherwise. No standard prototype of an object,
  array, number or boolean has a property of one of these names; a string has the
  methods \<^verbatim>\<open>search\<close> and \<^verbatim>\<open>replace\<close>, which \<open>applyEdit\<close> below treats on its own.\<close>

definition get_prop :: "jsval \<Rightarrow> string \<Rightarrow> jsval" where
  "get_prop v k =
     (case v of
        JObj ms \<Rightarrow> (case map_of ms k of Some x \<Rightarrow> x | None \<Rightarrow> JUndefined)
      | _ \<Rightarrow> JUndefined)"

text \<open>
  \<^verbatim>\<open>JSON.stringify(v)\<close> of a parsed value, without indentation. \<open>None\<close> is the result
  \<^verbatim>\<open>undefined\<close>, which a template literal prints as the word.
\<close>

definition hex_digit :: "nat \<Rightarrow> char" where
  "hex_digit n = (if n < 10 then char_of (48 + n) else char_of (87 + n))"

definition quote_char :: "char \<Rightarrow> string" where
  "quote_char c =
     (if c = CHR 0x22 then [CHR 0x5C, CHR 0x22]
      else if c = CHR 0x5C then [CHR 0x5C, CHR 0x5C]
      else if c = CHR 0x08 then [CHR 0x5C, CHR ''b'']
      else if c = CHR 0x0C then [CHR 0x5C, CHR ''f'']
      else if c = CHR 0x0A then [CHR 0x5C, CHR ''n'']
      else if c = CHR 0x0D then [CHR 0x5C, CHR ''r'']
      else if c = CHR 0x09 then [CHR 0x5C, CHR ''t'']
      else if (of_char c :: nat) < 32
      then [CHR 0x5C, CHR ''u'', CHR ''0'', CHR ''0'',
            hex_digit (of_char c div 16), hex_digit (of_char c mod 16)]
      else [c])"

definition quote :: "string \<Rightarrow> string" where
  "quote s = CHR 0x22 # concat (map quote_char s) @ [CHR 0x22]"

fun JSON_stringify :: "host \<Rightarrow> jsval \<Rightarrow> string option"
  and stringify_elems :: "host \<Rightarrow> jsval list \<Rightarrow> string list"
  and stringify_members :: "host \<Rightarrow> (string \<times> jsval) list \<Rightarrow> string list" where
  "JSON_stringify h JUndefined = None"
| "JSON_stringify h JNull = Some ''null''"
| "JSON_stringify h (JBool b) = Some (if b then ''true'' else ''false'')"
| "JSON_stringify h (JNum r) = Some (numberText h r)"
| "JSON_stringify h (JStr s) = Some (quote s)"
| "JSON_stringify h (JArr xs) = Some (''['' @ concat (stringify_elems h xs) @ '']'')"
| "JSON_stringify h (JObj ms) = Some (''{'' @ concat (stringify_members h ms) @ ''}'')"
| "stringify_elems h [] = []"
| "stringify_elems h (x # xs) =
     (case JSON_stringify h x of None \<Rightarrow> ''null'' | Some t \<Rightarrow> t)
       # (if xs = [] then [] else '','' # stringify_elems h xs)"
| "stringify_members h [] = []"
| "stringify_members h ((k, v) # ms) =
     (case JSON_stringify h v of
        None \<Rightarrow> stringify_members h ms
      | Some t \<Rightarrow>
          (quote k @ '':'' @ t)
            # (case stringify_members h ms of [] \<Rightarrow> [] | rest \<Rightarrow> '','' # rest))"

definition stringify_text :: "host \<Rightarrow> jsval \<Rightarrow> string" where
  "stringify_text h v = (case JSON_stringify h v of None \<Rightarrow> ''undefined'' | Some t \<Rightarrow> t)"

section \<open>Response sanitizer (\<^verbatim>\<open>parseAndSanitize\<close>)\<close>

definition match_fence_json :: "string \<Rightarrow> nat option" where
  "match_fence_json s =
     (case strip_prefix ''```'' s of
        Some (a # b # c # d # r) \<Rightarrow>
          (if (a = CHR ''j'' \<or> a = CHR ''J'') \<and> (b = CHR ''s'' \<or> b = CHR ''S'')
              \<and> (c = CHR ''o'' \<or> c = CHR ''O'') \<and> (d = CHR ''n'' \<or> d = CHR ''N'')
           then Some 7 else None)
      | _ \<Rightarrow> None)"

definition match_fence :: "string \<Rightarrow> nat option" where
  "match_fence s = (case strip_prefix ''```'' s of Some r \<Rightarrow> Some 3 | None \<Rightarrow> None)"

definition invalid_response :: exn where
  "invalid_response = Error ''The AI generated an invalid response structure. Please try again.''"

definition parseAndSanitize :: "string \<Rightarrow> exn + jsval" where
  "parseAndSanitize text =
     (case JSON_parse text of
        Some v \<Rightarrow> Inr v
      | None \<Rightarrow>
          (let firstOpen = indexOf text (CHR ''{'');
               lastClose = lastIndexOf text (CHR ''}'')
           in case (if firstOpen \<noteq> - 1 \<and> lastClose \<noteq> - 1 \<and> lastClose > firstOpen
                    then JSON_parse (substring text firstOpen (lastClose + 1))
                    else None) of
                Some v \<Rightarrow> Inr v
              | None \<Rightarrow>
                  (let cleanText =
                         trim (greplace match_fence [] (greplace match_fence_json [] text))
                   in case JSON_parse cleanText of
                        Some v \<Rightarrow> Inr v
                      | None \<Rightarrow> Inl invalid_response)))"

section \<open>Context compressor (\<^verbatim>\<open>compressCodeForContext\<close>)\<close>

definition lower_char :: "char \<Rightarrow> bool" where
  "lower_char c \<longleftrightarrow> (97::int) \<le> of_char c \<and> of_char c \<le> (122::int)"

definition upper_char :: "char \<Rightarrow> bool" where
  "upper_char c \<longleftrightarrow> (65::int) \<le> of_char c \<and> of_char c \<le> (90::int)"

definition b64_char :: "char \<Rightarrow> bool" where
  "b64_char c \<longleftrightarrow> upper_char c \<or> lower_char c \<or> is_digit c \<or> c = CHR ''+'' \<or> c = CHR ''/''
     \<or> c = CHR ''=''"

text \<open>
  \<^verbatim>\<open>/data:[a-z]+\/[a-z]+;base64,[A-Za-z0-9+/=]+/\<close>. Each greedy run is followed by a
  character outside its class, so the match, when there is one, takes every run whole.
\<close>

definition match_base64 :: "string \<Rightarrow> nat option" where
  "match_base64 s =
     (case strip_prefix ''data:'' s of
        None \<Rightarrow> None
      | Some s1 \<Rightarrow>
          (let t1 = takeWhile lower_char s1 in
           if t1 = [] then None
           else
             (case strip_prefix ''/'' (dropWhile lower_char s1) of
                None \<Rightarrow> None
              | Some s3 \<Rightarrow>
                  (let t2 = takeWhile lower_char s3 in
                   if t2 = [] then None
                   else
                     (case strip_prefix '';base64,'' (dropWhile lower_char s3) of
                        None \<Rightarrow> None
                      | Some s5 \<Rightarrow>
                          (let t3 = takeWhile b64_char s5 in
                           if t3 = [] then None
                           else Some (14 + length t1 + length t2 + length t3)))))))"

text \<open>
  \<^verbatim>\<open>/\[(\s*-?\d*\.?\d+,){10,}\s*-?\d*\.?\d+\s*\]/\<close>. A match runs from a \<^verbatim>\<open>[\<close> to the next
  \<^verbatim>\<open>]\<close>; between them stand at least eleven entries separated by commas. An entry is
  white space, an optional minus sign and a numeral \<^verbatim>\<open>\d*\.?\d+\<close>; the comma follows the
  numeral at once, and only the last entry may be followed by white space. A numeral
  is followed by a character that is neither a digit nor a point, so it is a whole run
  of digits and points: such a run is a numeral when it ends with a digit and has at
  most one point.
\<close>

definition num_dot :: "char \<Rightarrow> bool" where
  "num_dot c \<longleftrightarrow> is_digit c \<or> c = CHR ''.''"

definition numeral_run :: "string \<Rightarrow> bool" where
  "numeral_run r \<longleftrightarrow> r \<noteq> [] \<and> list_all num_dot r \<and> is_digit (last r)
     \<and> length (filter (\<lambda>c. c = CHR ''.'') r) \<le> 1"

definition after_sign :: "string \<Rightarrow> string" where
  "after_sign s =
     (let s1 = dropWhile js_space s
      in case s1 of [] \<Rightarrow> [] | c # r \<Rightarrow> if c = CHR ''-'' then r else s1)"

definition inner_entry :: "string \<Rightarrow> bool" where
  "inner_entry e \<longleftrightarrow> numeral_run (after_sign e)"

definition last_entry :: "string \<Rightarrow> bool" where
  "last_entry e \<longleftrightarrow> numeral_run (takeWhile num_dot (after_sign e))
     \<and> list_all js_space (dropWhile num_dot (after_sign e))"

fun split_commas :: "string \<Rightarrow> string list" where
  "split_commas [] = [[]]"
| "split_commas (c # cs) =
     (case split_commas cs of
        [] \<Rightarrow> [[c]]
      | e # es \<Rightarrow> if c = CHR '','' then [] # e # es else (c # e) # es)"

definition entries_ok :: "string list \<Rightarrow> bool" where
  "entries_ok es \<longleftrightarrow> 11 \<le> length es \<and> list_all inner_entry (butlast es) \<and> last_entry (last es)"

definition match_geometry :: "string \<Rightarrow> nat option" where
  "match_geometry s =
     (case s of
        [] \<Rightarrow> None
      | c # r \<Rightarrow>
          (let body = takeWhile (\<lambda>x. x \<noteq> CHR '']'') r in
           if c = CHR ''['' \<and> length body < length r \<and> entries_ok (split_commas body)
           then Some (length body + 2) else None))"

definition compressCodeForContext :: "string \<Rightarrow> string" where
  "compressCodeForContext code =
     (if code = [] then []
      else
        (let compressed = greplace match_base64 ''<BASE64_DATA_HIDDEN>'' code
         in greplace match_geometry ''[...GEOMETRY_DATA_HIDDEN...]'' compressed))"

section \<open>Data model (\<^verbatim>\<open>types.ts\<close>)\<close>

text \<open>
  The enumerations of \<^verbatim>\<open>types.ts\<close> are string enums: a preference is the string it
  holds at run time. A record field has its declared type, except the fields the
  services fill from a parsed response without checking its type (\<^verbatim>\<open>html\<close>,
  \<^verbatim>\<open>instructions\<close>, \<^verbatim>\<open>audio\<close> and the parts of the blueprint), which hold any value;
  \<^verbatim>\<open>coreMechanics\<close> and \<^verbatim>\<open>visualRequirements\<close> are the two properties of the blueprint
  that the prompts read through \<^verbatim>\<open>as any\<close>. An absent optional field is \<open>JUndefined\<close>.
  The fields \<^verbatim>\<open>seed\<close>, \<^verbatim>\<open>platform\<close> and \<^verbatim>\<open>quality\<close> of the manifest are prefixed, since
  the preferences have fields of the same names.
  The records are extensible: the \<open>more\<close> part stands for the properties the interface
  does not name, which an object spread copies too.
\<close>

record CapabilityFlags =
  gpuTier :: string
  input :: string
  telemetry :: bool

record UserPreferences =
  genre :: string
  platform :: string
  gameEngine :: string
  skillLevel :: string
  architectureStyle :: string
  projectDescription :: string
  visualStyle :: string
  cameraPerspective :: string
  environmentType :: string
  atmosphere :: string
  pacing :: string
  seed :: string
  quality :: string
  capabilities :: CapabilityFlags

record ForgeManifest =
  version :: string
  timestamp :: int
  manifestSeed :: string
  specHash :: string
  buildHash :: string
  manifestPlatform :: string
  manifestQuality :: string
  parentHash :: "string option"

record GeneratedGame =
  title :: string
  summary :: string
  coreMechanics :: jsval
  visualRequirements :: jsval
  html :: jsval
  instructions :: jsval
  recommendedEngine :: string
  language :: string
  architecture :: jsval
  techStack :: jsval
  prerequisites :: jsval
  audio :: jsval
  manifest :: "ForgeManifest option"

section \<open>Provider capability\<close>

text \<open>
  One call of \<^verbatim>\<open>generateContent\<close>: the promise is rejected with an exception, or
  fulfilled with a response whose \<^verbatim>\<open>text\<close> is a string or \<^verbatim>\<open>undefined\<close>. The provider
  is outside the repository: it is a parameter, a function of the prompt it is sent
  (the model name, the response schema and the budgets of the request are constants of
  each call site and do not reach the result otherwise).
\<close>

datatype response = Rejected exn | Returned "string option"

type_synonym provider = "string \<Rightarrow> response"

abbreviation NL :: string where
  "NL \<equiv> [CHR 0x0A]"

text \<open>\<^verbatim>\<open>response.text || "{}"\<close>.\<close>

definition text_or_empty_object :: "string option \<Rightarrow> string" where
  "text_or_empty_object t = (case t of None \<Rightarrow> ''{}'' | Some s \<Rightarrow> if s = [] then ''{}'' else s)"

section \<open>Soundscape phase (\<^verbatim>\<open>generateSoundscape\<close>)\<close>

definition soundscapePrompt :: "host \<Rightarrow> 'a GeneratedGame_scheme \<Rightarrow> 'b UserPreferences_scheme \<Rightarrow> string" where
  \<open>soundscapePrompt h blueprint prefs =
     NL @
     ''      Act as a Procedural Audio Engineer.'' @ NL @
     ''      Create a soundscape using PURE Web Audio API JavaScript code (Oscillators, GainNodes, Filters).'' @ NL @
     ''      NO external files (mp3/wav). All sound must be synthesized mathematically.'' @ NL @
     NL @
     ''      Game Context:'' @ NL @
     ''      - Title: '' @ title blueprint @ NL @
     ''      - Atmosphere: '' @ atmosphere prefs @ NL @
     ''      - Genre: '' @ genre prefs @ NL @
     ''      - Mechanics: '' @ stringify_text h (coreMechanics blueprint) @ NL @
     NL @
     ''      Task:'' @ NL @
     ''      1. Write a function '' @ [CHR 0x27] @ ''playMusic(ctx)'' @ [CHR 0x27] @ '' that creates a background loop.'' @ NL @
     ''         - For '' @ [CHR 0x27] @ ''Horror'' @ [CHR 0x27] @ '', use low drones and dissonance.'' @ NL @
     ''         - For '' @ [CHR 0x27] @ ''Arcade'' @ [CHR 0x27] @ '', use high tempo square/sawtooth waves.'' @ NL @
     ''         - For '' @ [CHR 0x27] @ ''Space'' @ [CHR 0x27] @ '', use reverb-heavy sine pads.'' @ NL @
     ''      2. Write functions for 3-5 distinct Sound Effects (SFX) needed for the mechanics (e.g., Jump, Shoot, Collect).'' @ NL @
     NL @
     ''      Output JSON matching the schema.'' @ NL @
     ''    ''\<close>

definition audio_fallback :: jsval where
  "audio_fallback =
     JObj [(''description'', JStr ''Audio generation failed.''),
           (''backgroundMusic'', JStr ''// No music generated''),
           (''soundEffects'', JArr [])]"

text \<open>
  The body is one \<^verbatim>\<open>try\<close> around the awaited call and the parse; its \<^verbatim>\<open>catch\<close> returns
  the fallback. The result is what the caller's \<^verbatim>\<open>await\<close> sees: \<open>Inl\<close> would be a
  rejection. (The optional progress callback is advisory and is left out.)
\<close>

definition generateSoundscape ::
  "host \<Rightarrow> provider \<Rightarrow> 'a GeneratedGame_scheme \<Rightarrow> 'b UserPreferences_scheme \<Rightarrow> exn + jsval" where
  "generateSoundscape h ai blueprint prefs =
     (let audioPrompt = soundscapePrompt h blueprint prefs
      in case (case ai audioPrompt of
                 Rejected e \<Rightarrow> Inl e
               | Returned text \<Rightarrow> parseAndSanitize (text_or_empty_object text)) of
           Inr parsed \<Rightarrow> Inr parsed
         | Inl e \<Rightarrow> Inr audio_fallback)"

section \<open>Differential refinement (\<^verbatim>\<open>refineGame\<close>)\<close>

definition refinePrompt :: "string \<Rightarrow> string \<Rightarrow> string" where
  \<open>refinePrompt instruction contextCode =
     NL @
     ''      Act as a Game Programmer.'' @ NL @
     ''      User Instruction: "'' @ instruction @ ''"'' @ NL @
     ''      '' @ NL @
     ''      Original Code (Data assets hidden for brevity):'' @ NL @
     ''      '' @ contextCode @ NL @
     ''      '' @ NL @
     ''      Task:'' @ NL @
     ''      Determine if this is a minor fix (use '' @ [CHR 0x27] @ ''patch'' @ [CHR 0x27] @ '' mode) or a major overhaul (use '' @ [CHR 0x27] @ ''rewrite'' @ [CHR 0x27] @ '' mode).'' @ NL @
     ''      '' @ NL @
     ''      STRATEGY:'' @ NL @
     ''      1. '' @ [CHR 0x27] @ ''patch'' @ [CHR 0x27] @ '': Use for tweaking variables, changing colors, small logic fixes. Provide '' @ [CHR 0x27] @ ''edits'' @ [CHR 0x27] @ ''.'' @ NL @
     ''      2. '' @ [CHR 0x27] @ ''rewrite'' @ [CHR 0x27] @ '': Use for adding new systems, changing control schemes, structural refactoring, or if the original code is missing critical chunks. Provide '' @ [CHR 0x27] @ ''fullCode'' @ [CHR 0x27] @ ''.'' @ NL @
     NL @
     ''      IMPORTANT: Do not try to replace <BASE64_DATA_HIDDEN> placeholders in patch mode. If you need to change data, use '' @ [CHR 0x27] @ ''rewrite'' @ [CHR 0x27] @ ''.'' @ NL @
     ''      '' @ NL @
     ''      REMINDER: Maintain the '' @ [CHR 0x27] @ ''Click to Start'' @ [CHR 0x27] @ '' overlay logic and AUDIO handling.'' @ NL @
     ''    ''\<close>

text \<open>
  One turn of the loop over \<^verbatim>\<open>result.edits\<close>, on the current \<^verbatim>\<open>newHtml\<close>. Reading
  \<^verbatim>\<open>edit.search\<close> of \<^verbatim>\<open>null\<close> throws. A string has the method \<^verbatim>\<open>search\<close>: a function, truthy,
  which \<^verbatim>\<open>includes\<close> renders as text; were that text found, \<^verbatim>\<open>replace\<close> would call the
  string's \<^verbatim>\<open>replace\<close> method as the replacer, without a receiver, which throws. For any
  other edit the search block is its own \<^verbatim>\<open>search\<close> property: when it is falsy nothing
  happens; when it is found the first occurrence is replaced; when it is not found the
  edit is skipped (the second branch only logs a warning).
\<close>

fun applyEdit :: "host \<Rightarrow> string \<Rightarrow> jsval \<Rightarrow> exn + string" where
  "applyEdit h newHtml JNull = Inl (TypeError (ReadOfNull ''search''))"
| "applyEdit h newHtml JUndefined = Inl (TypeError (ReadOfNull ''search''))"
| "applyEdit h newHtml (JStr e) =
     (if js_includes newHtml (nativeText h ''search'')
      then Inl (TypeError (NoReceiver ''replace'')) else Inr newHtml)"
| "applyEdit h newHtml edit =
     (let searchBlock = get_prop edit ''search'' in
      if truthy searchBlock then
        (case ToString h searchBlock of
           None \<Rightarrow> Inl (TypeError NoPrimitive)
         | Some s \<Rightarrow>
             (if js_includes newHtml s then
                (case ToString h (get_prop edit ''replace'') of
                   None \<Rightarrow> Inl (TypeError NoPrimitive)
                 | Some r \<Rightarrow> Inr (js_replace newHtml s r))
              else Inr newHtml))
      else Inr newHtml)"

fun applyEdits :: "host \<Rightarrow> string \<Rightarrow> jsval list \<Rightarrow> exn + string" where
  "applyEdits h newHtml [] = Inr newHtml"
| "applyEdits h newHtml (edit # edits) =
     (case applyEdit h newHtml edit of
        Inl e \<Rightarrow> Inl e
      | Inr patched \<Rightarrow> applyEdits h patched edits)"

text \<open>\<^verbatim>\<open>result.instructions || currentGame.instructions\<close>.\<close>

definition instructions_or :: "jsval \<Rightarrow> jsval \<Rightarrow> jsval" where
  "instructions_or new old = (if truthy new then new else old)"

text \<open>The statements of the \<^verbatim>\<open>try\<close> block after the parse. Reading \<^verbatim>\<open>result.editMode\<close> of
  \<^verbatim>\<open>null\<close> throws.\<close>

definition refineParsed ::
  "host \<Rightarrow> 'a GeneratedGame_scheme \<Rightarrow> string \<Rightarrow> jsval \<Rightarrow> exn + 'a GeneratedGame_scheme" where
  "refineParsed h currentGame newHtml result =
     (if result = JNull \<or> result = JUndefined then Inl (TypeError (ReadOfNull ''editMode''))
      else if get_prop result ''editMode'' = JStr ''rewrite'' \<and> truthy (get_prop result ''fullCode'')
      then Inr (currentGame\<lparr>html := get_prop result ''fullCode'',
                  instructions := instructions_or (get_prop result ''instructions'') (instructions currentGame)\<rparr>)
      else
        (case (case get_prop result ''edits'' of
                 JArr edits \<Rightarrow> applyEdits h newHtml edits
               | _ \<Rightarrow> Inr newHtml) of
           Inl e \<Rightarrow> Inl e
         | Inr patched \<Rightarrow>
             Inr (currentGame\<lparr>html := JStr patched,
                    instructions := instructions_or (get_prop result ''instructions'') (instructions currentGame)\<rparr>)))"

text \<open>
  \<^verbatim>\<open>currentGame.html || ""\<close> is passed to the compressor before the \<^verbatim>\<open>try\<close>: a truthy
  value that is not a string has no \<^verbatim>\<open>replace\<close> method, and the \<^verbatim>\<open>TypeError\<close> leaves
  \<^verbatim>\<open>refineGame\<close> as it is. Everything thrown inside the \<^verbatim>\<open>try\<close> is caught and thrown
  again as \<^verbatim>\<open>"Refinement Failed: " + error.message\<close>.
\<close>

definition html_or_empty :: "jsval \<Rightarrow> jsval" where
  "html_or_empty v = (if truthy v then v else JStr [])"

definition refineGame ::
  "host \<Rightarrow> provider \<Rightarrow> 'a GeneratedGame_scheme \<Rightarrow> string \<Rightarrow> exn + 'a GeneratedGame_scheme" where
  "refineGame h ai currentGame instruction =
     (case html_or_empty (html currentGame) of
        JStr code \<Rightarrow>
          (let contextCode = compressCodeForContext code;
               prompt = refinePrompt instruction contextCode
           in case (case ai prompt of
                      Rejected e \<Rightarrow> Inl e
                    | Returned text \<Rightarrow>
                        (case parseAndSanitize (text_or_empty_object text) of
                           Inl e \<Rightarrow> Inl e
                         | Inr result \<Rightarrow> refineParsed h currentGame code result)) of
                Inr game \<Rightarrow> Inr game
              | Inl error \<Rightarrow> Inl (Error (''Refinement Failed: '' @ message h error)))
      | _ \<Rightarrow> Inl (TypeError (NotAFunction ''replace'')))"

text \<open>
  The caller's object after the call, with the outcome. No statement of \<^verbatim>\<open>refineGame\<close>
  assigns to \<^verbatim>\<open>currentGame\<close> or to a property of it (both results are built by an object
  spread into a fresh object), so the caller's object is handed back as it came.
\<close>

definition refineGame_call ::
  "host \<Rightarrow> provider \<Rightarrow> 'a GeneratedGame_scheme \<Rightarrow> string
     \<Rightarrow> 'a GeneratedGame_scheme \<times> (exn + 'a GeneratedGame_scheme)" where
  "refineGame_call h ai currentGame instruction =
     (currentGame, refineGame h ai currentGame instruction)"

section \<open>Structure validation (\<^verbatim>\<open>validateStructure\<close>)\<close>

text \<open>
  \<^verbatim>\<open>key in data\<close> for an object or an array: an own property, or one found on the
  prototype chain. An array owns its indices and \<^verbatim>\<open>length\<close>.
\<close>

fun js_in :: "host \<Rightarrow> string \<Rightarrow> jsval \<Rightarrow> bool" where
  "js_in h key (JObj ms) \<longleftrightarrow> key \<in> set (map fst ms) \<or> key \<in> set (objectProto h)"
| "js_in h key (JArr xs) \<longleftrightarrow>
     (case array_index key of Some i \<Rightarrow> i < int (length xs) | None \<Rightarrow> False)
     \<or> key = ''length'' \<or> key \<in> set (arrayProto h) \<or> key \<in> set (objectProto h)"
| "js_in h key _ \<longleftrightarrow> False"

text \<open>\<^verbatim>\<open>!data || typeof data !== 'object'\<close> is false for objects and arrays only
  (\<^verbatim>\<open>typeof null\<close> is \<^verbatim>\<open>'object'\<close>, but \<^verbatim>\<open>null\<close> is falsy).\<close>

fun is_object :: "jsval \<Rightarrow> bool" where
  "is_object (JObj ms) = True"
| "is_object (JArr xs) = True"
| "is_object _ = False"

fun join :: "string \<Rightarrow> string list \<Rightarrow> string" where
  "join sep [] = []"
| "join sep [x] = x"
| "join sep (x # y # ys) = x @ sep @ join sep (y # ys)"

definition missing_keys :: "host \<Rightarrow> jsval \<Rightarrow> string list \<Rightarrow> string list" where
  "missing_keys h data requiredKeys = filter (\<lambda>key. \<not> js_in h key data) requiredKeys"

definition validateStructure :: "host \<Rightarrow> jsval \<Rightarrow> string list \<Rightarrow> string \<Rightarrow> exn + jsval" where
  "validateStructure h data requiredKeys context =
     (if \<not> truthy data \<or> \<not> is_object data
      then Inl (Error (context @ '': Response was not a valid object.''))
      else
        (let missing = missing_keys h data requiredKeys
         in if length missing > 0
            then Inl (Error (context @ '': Missing required fields: '' @ join '', '' missing))
            else Inr data))"

section \<open>Prompt registry (\<^verbatim>\<open>promptRegistry.ts\<close>)\<close>

text \<open>The members of the enumeration \<^verbatim>\<open>GameEngine\<close>: the keys of the table.\<close>

definition GameEngine_ThreeJS :: string where
  "GameEngine_ThreeJS = ''Three.js (Standard)''"

definition GameEngine_ThreeJS_WebGPU :: string where
  "GameEngine_ThreeJS_WebGPU = ''Three.js (WebGPU Experimental)''"

definition GameEngine_P5JS :: string where
  "GameEngine_P5JS = ''p5.js (Creative Coding)''"

definition GameEngine_BabylonJS :: string where
  "GameEngine_BabylonJS = ''Babylon.js (Enterprise 3D)''"

definition GameEngine_KaboomJS :: string where
  "GameEngine_KaboomJS = ''Kaboom.js (2D/Retro)''"

definition GameEngine_RawWebGL :: string where
  "GameEngine_RawWebGL = ''Raw WebGL (No Engine)''"

definition ENGINE_SPECS_ThreeJS :: string where
  \<open>ENGINE_SPECS_ThreeJS =
     NL @
     ''    FRAMEWORK: Three.js (Standard WebGL)'' @ NL @
     ''    IMPORTS: '' @ NL @
     ''      import * as THREE from '' @ [CHR 0x27] @ ''https://unpkg.com/three@0.160.0/build/three.module.js'' @ [CHR 0x27] @ '';'' @ NL @
     ''      import { PointerLockControls } from '' @ [CHR 0x27] @ ''https://unpkg.com/three@0.160.0/examples/jsm/controls/PointerLockControls.js'' @ [CHR 0x27] @ '';'' @ NL @
     ''      import { OrbitControls } from '' @ [CHR 0x27] @ ''https://unpkg.com/three@0.160.0/examples/jsm/controls/OrbitControls.js'' @ [CHR 0x27] @ '';'' @ NL @
     ''    BOILERPLATE: Standard Scene, Camera, WebGLRenderer.'' @ NL @
     ''    CHECK: Ensure canvas is attached to body.'' @ NL @
     ''  ''\<close>

definition ENGINE_SPECS_ThreeJS_WebGPU :: string where
  \<open>ENGINE_SPECS_ThreeJS_WebGPU =
     NL @
     ''    FRAMEWORK: Three.js (WebGPU - Experimental)'' @ NL @
     ''    IMPORTS: '' @ NL @
     ''       import * as THREE from '' @ [CHR 0x27] @ ''https://unpkg.com/three@0.167.0/build/three.module.js'' @ [CHR 0x27] @ '';'' @ NL @
     ''       import WebGPURenderer from '' @ [CHR 0x27] @ ''https://unpkg.com/three@0.167.0/examples/jsm/renderers/webgpu/WebGPURenderer.js'' @ [CHR 0x27] @ '';'' @ NL @
     ''       import { PointerLockControls } from '' @ [CHR 0x27] @ ''https://unpkg.com/three@0.167.0/examples/jsm/controls/PointerLockControls.js'' @ [CHR 0x27] @ '';'' @ NL @
     ''    BOILERPLATE: '' @ NL @
     ''       const renderer = new WebGPURenderer({ antialias: true });'' @ NL @
     ''       await renderer.init();'' @ NL @
     ''    IMPORTANT: Do NOT use legacy materials if possible, use MeshStandardMaterialNode or standard materials compatible with WebGPU.'' @ NL @
     ''  ''\<close>

definition ENGINE_SPECS_P5JS :: string where
  \<open>ENGINE_SPECS_P5JS =
     NL @
     ''    FRAMEWORK: p5.js (Creative Coding)'' @ NL @
     ''    IMPORTS: None (Global Mode via CDN)'' @ NL @
     ''    INJECTION: You MUST include this script tag in the HTML head: <script src="https://cdnjs.cloudflare.com/ajax/libs/p5.js/1.9.0/p5.js"></script>'' @ NL @
     ''    BOILERPLATE: '' @ NL @
     ''       function setup() { createCanvas(windowWidth, windowHeight, WEBGL); ... }'' @ NL @
     ''       function draw() { ... }'' @ NL @
     ''       function windowResized() { resizeCanvas(windowWidth, windowHeight); }'' @ NL @
     ''    NOTE: Use '' @ [CHR 0x27] @ ''WEBGL'' @ [CHR 0x27] @ '' mode in createCanvas for 3D requirements. Use p5'' @ [CHR 0x27] @ ''s immediate mode geometry (box, sphere) or loadModel.'' @ NL @
     ''  ''\<close>

definition ENGINE_SPECS_BabylonJS :: string where
  \<open>ENGINE_SPECS_BabylonJS =
     NL @
     ''    FRAMEWORK: Babylon.js'' @ NL @
     ''    IMPORTS: None (Global via CDN)'' @ NL @
     ''    INJECTION: <script src="https://cdn.babylonjs.com/babylon.js"></script><script src="https://cdn.babylonjs.com/loaders/babylonjs.loaders.min.js"></script>'' @ NL @
     ''    BOILERPLATE:'' @ NL @
     ''       const canvas = document.getElementById("renderCanvas"); // Create this canvas'' @ NL @
     ''       const engine = new BABYLON.Engine(canvas, true);'' @ NL @
     ''       const createScene = function() { ... return scene; };'' @ NL @
     ''       const scene = createScene();'' @ NL @
     ''       engine.runRenderLoop(function () { scene.render(); });'' @ NL @
     ''  ''\<close>

definition ENGINE_SPECS_KaboomJS :: string where
  \<open>ENGINE_SPECS_KaboomJS =
     NL @
     ''    FRAMEWORK: Kaboom.js'' @ NL @
     ''    IMPORTS: import kaboom from "https://unpkg.com/kaboom@3000.0.1/dist/kaboom.mjs";'' @ NL @
     ''    BOILERPLATE:'' @ NL @
     ''       kaboom({ background: [0,0,0] });'' @ NL @
     ''       // Define scenes and go('' @ [CHR 0x27] @ ''main'' @ [CHR 0x27] @ '');'' @ NL @
     ''    NOTE: This is a 2D engine. If the user asked for 3D, simulate it or create a 2.5D pseudo-3D style.'' @ NL @
     ''  ''\<close>

definition ENGINE_SPECS_RawWebGL :: string where
  \<open>ENGINE_SPECS_RawWebGL =
     NL @
     ''    FRAMEWORK: Raw WebGL API (No Engine)'' @ NL @
     ''    IMPORTS: None.'' @ NL @
     ''    BOILERPLATE: '' @ NL @
     ''       const gl = canvas.getContext("webgl");'' @ NL @
     ''       // You must write the vertex and fragment shaders as string variables.'' @ NL @
     ''       // You must handle buffer creation, linking, and the draw loop manually.'' @ NL @
     ''    WARNING: Keep it simple. A colored cube or basic terrain is sufficient given the complexity.'' @ NL @
     ''  ''\<close>

definition ENGINE_SPECS :: "(string \<times> string) list" where
  "ENGINE_SPECS =
     [(GameEngine_ThreeJS, ENGINE_SPECS_ThreeJS),
      (GameEngine_ThreeJS_WebGPU, ENGINE_SPECS_ThreeJS_WebGPU),
      (GameEngine_P5JS, ENGINE_SPECS_P5JS),
      (GameEngine_BabylonJS, ENGINE_SPECS_BabylonJS),
      (GameEngine_KaboomJS, ENGINE_SPECS_KaboomJS),
      (GameEngine_RawWebGL, ENGINE_SPECS_RawWebGL)]"

text \<open>
  \<^verbatim>\<open>ENGINE_SPECS[key]\<close>. The table is an object literal: a key it does not own is looked
  up on \<^verbatim>\<open>Object.prototype\<close>, where the standard names hold functions and objects.
\<close>

datatype lookup = Own string | Inherited string | Missing

definition engine_lookup :: "host \<Rightarrow> string \<Rightarrow> lookup" where
  "engine_lookup h key =
     (case map_of ENGINE_SPECS key of
        Some spec \<Rightarrow> Own spec
      | None \<Rightarrow> if key \<in> set (objectProto h) then Inherited key else Missing)"

text \<open>The text a template literal prints for a looked-up value.\<close>

fun lookup_text :: "host \<Rightarrow> lookup \<Rightarrow> string" where
  "lookup_text h (Own spec) = spec"
| "lookup_text h (Inherited key) = nativeText h key"
| "lookup_text h Missing = ''undefined''"

text \<open>\<^verbatim>\<open>${ENGINE_SPECS[prefs.gameEngine] || ENGINE_SPECS[GameEngine.ThreeJS]}\<close>: an own
  entry is truthy unless it is the empty string, an inherited function or object is
  truthy, a missing one is \<^verbatim>\<open>undefined\<close>.\<close>

definition engine_instructions :: "host \<Rightarrow> string \<Rightarrow> string" where
  "engine_instructions h key =
     (case engine_lookup h key of
        Own spec \<Rightarrow>
          if spec \<noteq> [] then spec else lookup_text h (engine_lookup h GameEngine_ThreeJS)
      | Inherited k \<Rightarrow> nativeText h k
      | Missing \<Rightarrow> lookup_text h (engine_lookup h GameEngine_ThreeJS))"

text \<open>The template of \<^verbatim>\<open>BuildPrototype\<close>, cut at the engine's instructions: what
  stands before them and what stands after them.\<close>

definition BuildPrototype_head ::
  "host \<Rightarrow> 'a GeneratedGame_scheme \<Rightarrow> 'b UserPreferences_scheme \<Rightarrow> string \<Rightarrow> string" where
  \<open>BuildPrototype_head h blueprint prefs gpuRules =
     NL @
     ''    Act as an Expert Creative Coder and Game Engine Specialist.'' @ NL @
     NL @
     ''    BLUEPRINT:'' @ NL @
     ''    - Title: '' @ title blueprint @ NL @
     ''    - Mechanics: '' @ stringify_text h (coreMechanics blueprint) @ NL @
     ''    - Visuals: '' @ stringify_text h (visualRequirements blueprint) @ NL @
     NL @
     ''    USER SETTINGS (Strict Enforcement):'' @ NL @
     ''    - ENGINE: '' @ gameEngine prefs @ NL @
     ''    - PLATFORM: '' @ platform prefs @ NL @
     ''    - INPUT MODE: '' @ input (capabilities prefs) @ NL @
     ''    - Style: '' @ visualStyle prefs @ NL @
     ''    - Camera: '' @ cameraPerspective prefs @ NL @
     ''    - Env: '' @ environmentType prefs @ NL @
     ''    - PROTOTYPE QUALITY: '' @ quality prefs @ NL @
     ''    - GPU TIER: '' @ gpuTier (capabilities prefs) @ NL @
     ''    '' @ NL @
     ''    '' @ gpuRules @ NL @
     NL @
     ''    ENGINE SPECIFIC INSTRUCTIONS:'' @ NL @
     ''    ''\<close>

definition BuildPrototype_tail :: "'b UserPreferences_scheme \<Rightarrow> string \<Rightarrow> string" where
  \<open>BuildPrototype_tail prefs audioContextStr =
     NL @
     ''    '' @ NL @
     ''    DETERMINISTIC SEED: "'' @ seed prefs @ ''"'' @ NL @
     ''    You MUST implement a seeded random number generator (PRNG) and use it for ALL procedural generation.'' @ NL @
     ''    '' @ NL @
     ''    AUDIO SYSTEM:'' @ NL @
     ''    '' @ audioContextStr @ NL @
     NL @
     ''    Task:'' @ NL @
     ''    Build a single-file HTML/JS prototype.'' @ NL @
     ''    '' @ NL @
     ''    CRITICAL IMPLEMENTATION RULES:'' @ NL @
     ''    1. SINGLE FILE: All HTML, CSS, and JS must be in one string.'' @ NL @
     ''    2. MODULE BOUNDARIES: Organize code into commented sections (CORE, RENDERER, INPUT, LOGIC).'' @ NL @
     ''    3. '' @ [CHR 0x27] @ ''CLICK TO PLAY'' @ [CHR 0x27] @ '' OVERLAY (MANDATORY):'' @ NL @
     ''       - You MUST include a <div id="overlay">...</div> covering the screen.'' @ NL @
     ''       - You MUST add a click event listener to this overlay to unlock AudioContext and start the loop.'' @ NL @
     ''    '' @ NL @
     ''    4. TELEMETRY:'' @ NL @
     ''       '' @ (if telemetry (capabilities prefs) then ''You MUST inject telemetry code to post '' @ [CHR 0x27] @ ''forge-telemetry'' @ [CHR 0x27] @ '' messages with fps and entities count to window.parent.'' else []) @ NL @
     NL @
     ''    Output: JSON with '' @ [CHR 0x27] @ ''html'' @ [CHR 0x27] @ '' string and '' @ [CHR 0x27] @ ''instructions'' @ [CHR 0x27] @ ''.'' @ NL @
     ''  ''\<close>

definition BuildPrototype ::
  "host \<Rightarrow> 'a GeneratedGame_scheme \<Rightarrow> 'b UserPreferences_scheme \<Rightarrow> string \<Rightarrow> string \<Rightarrow> string" where
  "BuildPrototype h blueprint prefs audioContextStr gpuRules =
     BuildPrototype_head h blueprint prefs gpuRules
       @ engine_instructions h (gameEngine prefs)
       @ BuildPrototype_tail prefs audioContextStr"

section \<open>Values for the examples\<close>

text \<open>
  A host for the closed examples: the property names of \<^verbatim>\<open>Object.prototype\<close> and
  \<^verbatim>\<open>Array.prototype\<close>, the rendering of built-in functions and the messages of V8.
  The examples render no number: the rendering of numbers is left unspecified.
\<close>

definition v8 :: host where
  "v8 = \<lparr>objectProto = [''constructor'', ''__defineGetter__'', ''__defineSetter__'',
            ''hasOwnProperty'', ''__lookupGetter__'', ''__lookupSetter__'', ''isPrototypeOf'',
            ''propertyIsEnumerable'', ''toString'', ''valueOf'', ''__proto__'', ''toLocaleString''],
          arrayProto = [''constructor'', ''at'', ''concat'', ''copyWithin'', ''fill'', ''find'',
            ''findIndex'', ''findLast'', ''findLastIndex'', ''lastIndexOf'', ''pop'', ''push'',
            ''reverse'', ''shift'', ''unshift'', ''slice'', ''sort'', ''splice'', ''includes'',
            ''indexOf'', ''join'', ''keys'', ''entries'', ''values'', ''forEach'', ''filter'',
            ''flat'', ''flatMap'', ''map'', ''every'', ''some'', ''reduce'', ''reduceRight'',
            ''toLocaleString'', ''toString'', ''toReversed'', ''toSorted'', ''toSpliced'', ''with''],
          nativeText = (\<lambda>k. if k = ''__proto__'' then ''[object Object]''
                            else ''function '' @ (if k = ''constructor'' then ''Object'' else k)
                                   @ ''() { [native code] }''),
          numberText = undefined,
          typeErrorText = (\<lambda>e. case e of
              ReadOfNull p \<Rightarrow>
                ''Cannot read properties of null (reading '' @ [CHR 0x27] @ p @ [CHR 0x27] @ '')''
            | NoPrimitive \<Rightarrow> ''Cannot convert object to primitive value''
            | NoReceiver m \<Rightarrow> ''String.prototype.'' @ m @ '' called on null or undefined''
            | NotAFunction m \<Rightarrow> ''compressed.'' @ m @ '' is not a function'')\<rparr>"

definition manifest0 :: ForgeManifest where
  "manifest0 = \<lparr>version = ''1.0.0'', timestamp = 1700000000000, manifestSeed = ''abc123'',
     specHash = ''1a2b3c'', buildHash = ''4d5e6f'', manifestPlatform = ''Web (WebGL/WebGPU)'',
     manifestQuality = ''Sketch (Low Detail, Fast)'', parentHash = None\<rparr>"

definition game0 :: GeneratedGame where
  "game0 = \<lparr>title = ''Neon Run'', summary = ''Dodge the blocks.'',
     coreMechanics = JArr [JStr ''dodge''], visualRequirements = JArr [JStr ''bloom''],
     html = JStr ''<p>score = 0;</p>'', instructions = JStr ''Arrow keys to move.'',
     recommendedEngine = ''Three.js'', language = ''JavaScript'',
     architecture = JObj [], techStack = JArr [], prerequisites = JArr [],
     audio = audio_fallback, manifest = Some manifest0\<rparr>"

definition prefs0 :: UserPreferences where
  "prefs0 = \<lparr>genre = ''Arcade / Action'', platform = ''Web (WebGL/WebGPU)'',
     gameEngine = ''Three.js (Standard)'', skillLevel = ''Beginner'',
     architectureStyle = ''AI Recommended'', projectDescription = ''A neon runner'',
     visualStyle = ''Cyberpunk / Neon'', cameraPerspective = ''Third Person (Over Shoulder)'',
     environmentType = ''Urban / Cityscape'', atmosphere = ''Night / Neon'',
     pacing = ''Fast / Arcade'', seed = ''abc123'', quality = ''Sketch (Low Detail, Fast)'',
     capabilities = \<lparr>gpuTier = ''low'', input = ''mouse'', telemetry = True\<rparr>\<rparr>"

section \<open>Refinement: what a call returns\<close>

lemma refineParsed_shape:
  "refineParsed h g code result = Inr g' \<Longrightarrow> \<exists>x y. g' = g\<lparr>html := x, instructions := y\<rparr>"
  by (auto simp: refineParsed_def split: if_splits sum.splits)

lemma refineGame_shape:
  "refineGame h ai g instruction = Inr g' \<Longrightarrow> \<exists>x y. g' = g\<lparr>html := x, instructions := y\<rparr>"
  by (auto simp: refineGame_def Let_def split: jsval.splits response.splits sum.splits
      dest: refineParsed_shape)

lemma rewrite_text_parse:
  \<open>JSON_parse ''{"editMode":"rewrite","fullCode":"<p>new</p>"}'' =
     Some (JObj [(''editMode'', JStr ''rewrite''), (''fullCode'', JStr ''<p>new</p>'')])\<close>
  by code_simp

lemma game0_rewrite:
  \<open>refineGame v8 (\<lambda>prompt. Returned (Some ''{"editMode":"rewrite","fullCode":"<p>new</p>"}''))
      game0 ''start over''
   = Inr (game0\<lparr>html := JStr ''<p>new</p>''\<rparr>)\<close>
  by (simp add: refineGame_def html_or_empty_def game0_def text_or_empty_object_def
      parseAndSanitize_def rewrite_text_parse refineParsed_def get_prop_def instructions_or_def)

lemma patch_text_parse:
  \<open>JSON_parse ''{"editMode":"patch","edits":[{"search":"0","replace":"100"}]}'' =
     Some (JObj [(''editMode'', JStr ''patch''),
                 (''edits'', JArr [JObj [(''search'', JStr ''0''), (''replace'', JStr ''100'')]])])\<close>
  by code_simp

lemma game0_patch:
  \<open>refineGame v8
      (\<lambda>prompt. Returned (Some ''{"editMode":"patch","edits":[{"search":"0","replace":"100"}]}''))
      game0 ''start with 100 points''
   = Inr (game0\<lparr>html := JStr ''<p>score = 100;</p>''\<rparr>)\<close>
  by (simp add: refineGame_def html_or_empty_def game0_def text_or_empty_object_def
      parseAndSanitize_def patch_text_parse refineParsed_def get_prop_def instructions_or_def
      js_includes_def js_replace_def)

text \<open>
  Claim C10. A successful \<^verbatim>\<open>refineGame\<close> returns the input game with \<^verbatim>\<open>html\<close> and
  \<^verbatim>\<open>instructions\<close> set and every other field as it was: the returned value is the input
  updated at these two fields, and in particular the audio bundle and the manifest (its
  hashes, timestamp and version with it) are the input's, whichever mode was taken.
\<close>

theorem refineGame_frame:
  assumes "refineGame h ai currentGame instruction = Inr game"
  shows "game = currentGame\<lparr>html := html game, instructions := instructions game\<rparr>
         \<and> audio game = audio currentGame \<and> manifest game = manifest currentGame"
proof -
  from refineGame_shape[OF assms] obtain x y where
    "game = currentGame\<lparr>html := x, instructions := y\<rparr>" by blast
  then show ?thesis by simp
qed

text \<open>Witness for C10: a rewrite and a patch of the example game.\<close>

theorem refineGame_frame_witness:
  \<open>refineGame v8 (\<lambda>prompt. Returned (Some ''{"editMode":"rewrite","fullCode":"<p>new</p>"}''))
      game0 ''start over'' = Inr (game0\<lparr>html := JStr ''<p>new</p>''\<rparr>)
   \<and> audio (game0\<lparr>html := JStr ''<p>new</p>''\<rparr>) = audio game0
   \<and> manifest (game0\<lparr>html := JStr ''<p>new</p>''\<rparr>) = manifest game0
   \<and> refineGame v8
        (\<lambda>prompt. Returned (Some ''{"editMode":"patch","edits":[{"search":"0","replace":"100"}]}''))
        game0 ''start with 100 points'' = Inr (game0\<lparr>html := JStr ''<p>score = 100;</p>''\<rparr>)
   \<and> audio (game0\<lparr>html := JStr ''<p>score = 100;</p>''\<rparr>) = audio game0
   \<and> manifest (game0\<lparr>html := JStr ''<p>score = 100;</p>''\<rparr>) = manifest game0\<close>
  using refineGame_frame[OF game0_rewrite] refineGame_frame[OF game0_patch] game0_rewrite game0_patch
  by simp

text \<open>
  Claim C1 says that the returned game carries a new manifest, computed from the new
  artifact, whose \<^verbatim>\<open>parentHash\<close> is the build hash of the input's manifest. It does not:
  \<^verbatim>\<open>refineGame\<close> never builds a manifest. After a rewrite of the example game the manifest
  is the input's own, with the old build hash and no parent hash.
\<close>

theorem refineGame_manifest_counterexample:
  \<open>refineGame v8 (\<lambda>prompt. Returned (Some ''{"editMode":"rewrite","fullCode":"<p>new</p>"}''))
      game0 ''start over'' = Inr (game0\<lparr>html := JStr ''<p>new</p>''\<rparr>)
   \<and> manifest game0 = Some manifest0
   \<and> manifest (game0\<lparr>html := JStr ''<p>new</p>''\<rparr>) = Some manifest0
   \<and> parentHash manifest0 \<noteq> Some (buildHash manifest0)\<close>
  using game0_rewrite by (simp add: game0_def manifest0_def)

text \<open>
  Claim C1, as amended: a successful \<^verbatim>\<open>refineGame\<close> on a game whose manifest is present
  returns a game with that same manifest; its build hash and its parent hash are those
  of the input's manifest, not recomputed.
\<close>

theorem refineGame_keeps_manifest:
  assumes "refineGame h ai currentGame instruction = Inr game"
    and "manifest currentGame = Some m"
  shows "manifest game = Some m
         \<and> map_option buildHash (manifest game) = Some (buildHash m)
         \<and> map_option parentHash (manifest game) = Some (parentHash m)"
proof -
  from refineGame_shape[OF assms(1)] obtain x y where
    "game = currentGame\<lparr>html := x, instructions := y\<rparr>" by blast
  with assms(2) show ?thesis by simp
qed

text \<open>Witness for the amended C1: the patch of the example game.\<close>

theorem refineGame_keeps_manifest_witness:
  \<open>manifest (game0\<lparr>html := JStr ''<p>score = 100;</p>''\<rparr>) = Some manifest0
   \<and> map_option buildHash (manifest (game0\<lparr>html := JStr ''<p>score = 100;</p>''\<rparr>)) = Some ''4d5e6f''
   \<and> map_option parentHash (manifest (game0\<lparr>html := JStr ''<p>score = 100;</p>''\<rparr>)) = Some None\<close>
  using refineGame_keeps_manifest[OF game0_patch, of manifest0]
  by (simp add: game0_def manifest0_def)

text \<open>
  Claim C4. When the provider call fails, or the sanitization of its response fails,
  \<^verbatim>\<open>refineGame\<close> fails with one error whose message is \<^verbatim>\<open>Refinement Failed: \<close> followed by
  the message of the failure, and the caller's game is as it was. (The current \<^verbatim>\<open>html\<close>
  is a string or absent, as its type says: the provider is called at all.)
\<close>

theorem refineGame_failure:
  assumes "html_or_empty (html currentGame) = JStr code"
    and "ai (refinePrompt instruction (compressCodeForContext code)) = Rejected e
         \<or> (ai (refinePrompt instruction (compressCodeForContext code)) = Returned text
             \<and> parseAndSanitize (text_or_empty_object text) = Inl e)"
  shows "refineGame_call h ai currentGame instruction
         = (currentGame, Inl (Error (''Refinement Failed: '' @ message h e)))"
  using assms by (auto simp: refineGame_call_def refineGame_def Let_def)

lemma prose_not_parsed: "parseAndSanitize ''I cannot help with that.'' = Inl invalid_response"
  by code_simp

text \<open>Witness for C4: a provider that rejects, and one that answers in prose.\<close>

theorem refineGame_failure_witness:
  "refineGame_call v8 (\<lambda>prompt. Rejected (Error ''429 quota exceeded'')) game0 ''make it blue''
     = (game0, Inl (Error ''Refinement Failed: 429 quota exceeded''))
   \<and> refineGame_call v8 (\<lambda>prompt. Returned (Some ''I cannot help with that.'')) game0 ''make it blue''
     = (game0, Inl (Error
          ''Refinement Failed: The AI generated an invalid response structure. Please try again.''))"
proof -
  have c: "html_or_empty (html game0) = JStr ''<p>score = 0;</p>''"
    by (simp add: html_or_empty_def game0_def)
  have t: "parseAndSanitize (text_or_empty_object (Some ''I cannot help with that.''))
           = Inl invalid_response"
    using prose_not_parsed by (simp add: text_or_empty_object_def)
  show ?thesis
    using refineGame_failure[OF c, of "\<lambda>prompt. Rejected (Error ''429 quota exceeded'')"
        "''make it blue''" "Error ''429 quota exceeded''" None v8]
      refineGame_failure[OF c, of "\<lambda>prompt. Returned (Some ''I cannot help with that.'')"
        "''make it blue''" invalid_response "Some ''I cannot help with that.''" v8] t
    by (simp add: invalid_response_def)
qed

section \<open>Soundscape: failure is absorbed\<close>

text \<open>
  Claim C5. For every blueprint and preferences, when the provider call of the Soundscape
  phase fails or its response cannot be parsed, \<^verbatim>\<open>generateSoundscape\<close> does not throw: it
  returns the fixed fallback bundle, whose \<^verbatim>\<open>soundEffects\<close> is the empty list and whose
  \<^verbatim>\<open>description\<close> is \<^verbatim>\<open>Audio generation failed.\<close>
\<close>

theorem generateSoundscape_fallback:
  assumes "ai (soundscapePrompt h blueprint prefs) = Rejected e
           \<or> (ai (soundscapePrompt h blueprint prefs) = Returned text
               \<and> parseAndSanitize (text_or_empty_object text) = Inl e)"
  shows "generateSoundscape h ai blueprint prefs = Inr audio_fallback
         \<and> get_prop audio_fallback ''soundEffects'' = JArr []
         \<and> get_prop audio_fallback ''description'' = JStr ''Audio generation failed.''"
  using assms by (auto simp: generateSoundscape_def Let_def audio_fallback_def get_prop_def)

text \<open>Witness for C5: a provider that rejects, and one that answers in prose.\<close>

theorem generateSoundscape_fallback_witness:
  "generateSoundscape v8 (\<lambda>prompt. Rejected (Error ''503 unavailable'')) game0 prefs0
     = Inr audio_fallback
   \<and> generateSoundscape v8 (\<lambda>prompt. Returned (Some ''I cannot help with that.'')) game0 prefs0
     = Inr audio_fallback
   \<and> get_prop audio_fallback ''soundEffects'' = JArr []
   \<and> get_prop audio_fallback ''description'' = JStr ''Audio generation failed.''"
proof -
  have t: "parseAndSanitize (text_or_empty_object (Some ''I cannot help with that.''))
           = Inl invalid_response"
    using prose_not_parsed by (simp add: text_or_empty_object_def)
  show ?thesis
    using generateSoundscape_fallback[of "\<lambda>prompt. Rejected (Error ''503 unavailable'')" v8 game0 prefs0
        "Error ''503 unavailable''" None]
      generateSoundscape_fallback[of "\<lambda>prompt. Returned (Some ''I cannot help with that.'')" v8 game0
        prefs0 invalid_response "Some ''I cannot help with that.''"] t
    by simp
qed

section \<open>Structure validation: which fields are reported\<close>

text \<open>
  Claim C7 reads a field as present when the value carries it. The code tests
  \<^verbatim>\<open>key in data\<close>, which also finds what the value inherits, and takes an array for an
  object: the empty object passes with \<^verbatim>\<open>toString\<close> and \<^verbatim>\<open>constructor\<close> required, although it
  has neither field, and the array \<^verbatim>\<open>[10, 20]\<close> passes with \<^verbatim>\<open>length\<close> and \<^verbatim>\<open>1\<close> required.
\<close>

theorem validateStructure_inherited_counterexample:
  "validateStructure v8 (JObj []) [''toString'', ''constructor''] ''Blueprint Spec'' = Inr (JObj [])
   \<and> ''toString'' \<notin> fst ` set ([] :: (string \<times> jsval) list)
   \<and> ''constructor'' \<notin> fst ` set ([] :: (string \<times> jsval) list)
   \<and> validateStructure v8 (JArr [JNum 10, JNum 20]) [''length'', ''1''] ''Blueprint Spec''
       = Inr (JArr [JNum 10, JNum 20])"
  by (simp add: validateStructure_def missing_keys_def v8_def array_index_def is_digit_def
      digits_val_def digit_val_def)

text \<open>
  Claim C7, as amended. A value that is neither an object nor an array (\<^verbatim>\<open>null\<close>,
  \<^verbatim>\<open>undefined\<close>, a boolean, a number, a string) fails as not a valid object. For an object
  \<open>JObj ms\<close> and required names none of which is a property name of \<^verbatim>\<open>Object.prototype\<close>:
  validation fails exactly when some required name is not among the object's own fields,
  the message then lists the required names that are not own fields, all of them, in the
  order of the requirement, and no other; when every required name is an own field the
  value is returned. An array, for required names that are no index, not \<^verbatim>\<open>length\<close> and
  not inherited, fails as soon as one name is required. With \<^verbatim>\<open>a, b, c\<close> required and
  \<^verbatim>\<open>{a:1, c:3}\<close> the message names \<^verbatim>\<open>b\<close> alone.
\<close>

theorem validateStructure_own_fields:
  "((\<forall>ms. data \<noteq> JObj ms) \<and> (\<forall>xs. data \<noteq> JArr xs) \<longrightarrow>
      validateStructure h data requiredKeys context
        = Inl (Error (context @ '': Response was not a valid object.'')))
   \<and> ((\<forall>key\<in>set requiredKeys. key \<notin> set (objectProto h)) \<longrightarrow>
        (isl (validateStructure h (JObj ms) requiredKeys context)
           \<longleftrightarrow> (\<exists>key\<in>set requiredKeys. key \<notin> fst ` set ms))
      \<and> ((\<exists>key\<in>set requiredKeys. key \<notin> fst ` set ms) \<longrightarrow>
           validateStructure h (JObj ms) requiredKeys context
             = Inl (Error (context @ '': Missing required fields: ''
                             @ join '', '' (filter (\<lambda>key. key \<notin> fst ` set ms) requiredKeys))))
      \<and> ((\<forall>key\<in>set requiredKeys. key \<in> fst ` set ms) \<longrightarrow>
           validateStructure h (JObj ms) requiredKeys context = Inr (JObj ms)))
   \<and> ((\<forall>key\<in>set requiredKeys. key \<notin> set (objectProto h) \<and> key \<notin> set (arrayProto h)
          \<and> key \<noteq> ''length'' \<and> array_index key = None) \<longrightarrow>
        (isl (validateStructure h (JArr xs) requiredKeys context) \<longleftrightarrow> requiredKeys \<noteq> []))
   \<and> (''b'' \<notin> set (objectProto h) \<longrightarrow>
        validateStructure h (JObj [(''a'', JNum 1), (''c'', JNum 3)]) [''a'', ''b'', ''c''] context
          = Inl (Error (context @ '': Missing required fields: b'')))"
proof (intro conjI impI)
  assume "(\<forall>ms. data \<noteq> JObj ms) \<and> (\<forall>xs. data \<noteq> JArr xs)"
  then show "validateStructure h data requiredKeys context
        = Inl (Error (context @ '': Response was not a valid object.''))"
    by (cases data) (simp_all add: validateStructure_def)
next
  assume a: "\<forall>key\<in>set requiredKeys. key \<notin> set (objectProto h)"
  then have m: "missing_keys h (JObj ms) requiredKeys
                = filter (\<lambda>key. key \<notin> fst ` set ms) requiredKeys"
    unfolding missing_keys_def by (intro filter_cong) auto
  show "isl (validateStructure h (JObj ms) requiredKeys context)
           \<longleftrightarrow> (\<exists>key\<in>set requiredKeys. key \<notin> fst ` set ms)"
    by (auto simp: validateStructure_def m Let_def filter_empty_conv)
  {
    assume "\<exists>key\<in>set requiredKeys. key \<notin> fst ` set ms"
    then show "validateStructure h (JObj ms) requiredKeys context
             = Inl (Error (context @ '': Missing required fields: ''
                             @ join '', '' (filter (\<lambda>key. key \<notin> fst ` set ms) requiredKeys)))"
      by (auto simp: validateStructure_def m Let_def filter_empty_conv)
  }
  {
    assume "\<forall>key\<in>set requiredKeys. key \<in> fst ` set ms"
    then show "validateStructure h (JObj ms) requiredKeys context = Inr (JObj ms)"
      by (auto simp: validateStructure_def m Let_def filter_empty_conv)
  }
next
  assume a: "\<forall>key\<in>set requiredKeys. key \<notin> set (objectProto h) \<and> key \<notin> set (arrayProto h)
          \<and> key \<noteq> ''length'' \<and> array_index key = None"
  then have "missing_keys h (JArr xs) requiredKeys = filter (\<lambda>key. True) requiredKeys"
    unfolding missing_keys_def by (intro filter_cong) auto
  then show "isl (validateStructure h (JArr xs) requiredKeys context) \<longleftrightarrow> requiredKeys \<noteq> []"
    by (auto simp: validateStructure_def Let_def)
next
  assume "''b'' \<notin> set (objectProto h)"
  then show "validateStructure h (JObj [(''a'', JNum 1), (''c'', JNum 3)]) [''a'', ''b'', ''c''] context
          = Inl (Error (context @ '': Missing required fields: b''))"
    by (simp add: validateStructure_def missing_keys_def)
qed

lemma abc_parse: \<open>JSON_parse ''{"a":1, "c":3}'' = Some (JObj [(''a'', JNum 1), (''c'', JNum 3)])\<close>
  by code_simp

text \<open>Witness for the amended C7: the input \<^verbatim>\<open>{"a":1, "c":3}\<close>, with and without \<^verbatim>\<open>b\<close>
  required, the array \<^verbatim>\<open>[10, 20]\<close> with \<^verbatim>\<open>a\<close> required, and \<^verbatim>\<open>null\<close>.\<close>

theorem validateStructure_own_fields_witness:
  \<open>JSON_parse ''{"a":1, "c":3}'' = Some (JObj [(''a'', JNum 1), (''c'', JNum 3)])
   \<and> validateStructure v8 (JObj [(''a'', JNum 1), (''c'', JNum 3)]) [''a'', ''b'', ''c''] ''Blueprint Spec''
       = Inl (Error ''Blueprint Spec: Missing required fields: b'')
   \<and> validateStructure v8 (JObj [(''a'', JNum 1), (''c'', JNum 3)]) [''a'', ''c''] ''Blueprint Spec''
       = Inr (JObj [(''a'', JNum 1), (''c'', JNum 3)])
   \<and> isl (validateStructure v8 (JArr [JNum 10, JNum 20]) [''a'', ''c''] ''Blueprint Spec'')
   \<and> validateStructure v8 JNull [''a'', ''b'', ''c''] ''Blueprint Spec''
       = Inl (Error ''Blueprint Spec: Response was not a valid object.'')\<close>
proof -
  have np: "''a'' \<notin> set (objectProto v8)" "''b'' \<notin> set (objectProto v8)"
    "''c'' \<notin> set (objectProto v8)" "''a'' \<notin> set (arrayProto v8)" "''c'' \<notin> set (arrayProto v8)"
    by (simp_all add: v8_def)
  have ix: "array_index ''a'' = None" "array_index ''c'' = None"
    by (simp_all add: array_index_def is_digit_def)
  show ?thesis
    using validateStructure_own_fields[of JNull v8 "[''a'', ''b'', ''c'']" "''Blueprint Spec''"
        "[(''a'', JNum 1), (''c'', JNum 3)]" "[JNum 10, JNum 20]"]
      validateStructure_own_fields[of JNull v8 "[''a'', ''c'']" "''Blueprint Spec''"
        "[(''a'', JNum 1), (''c'', JNum 3)]" "[JNum 10, JNum 20]"] abc_parse np ix
    by simp
qed


section \<open>Refinement: applying a patch\<close>

text \<open>The text \<open>s\<close> with the first occurrence of \<open>p\<close> replaced by \<open>r\<close>, character for
  character.\<close>

definition literal_replace :: "string \<Rightarrow> string \<Rightarrow> string \<Rightarrow> string" where
  "literal_replace s p r =
     (case index_of p s of
        None \<Rightarrow> s
      | Some i \<Rightarrow> take i s @ r @ drop (i + length p) s)"


lemma index_of_first:
  "index_of p s = Some i \<Longrightarrow> j < i \<Longrightarrow> take (length p) (drop j s) \<noteq> p"
proof (induction s arbitrary: i j)
  case Nil
  then show ?case by (auto split: if_splits)
next
  case (Cons c cs)
  from Cons.prems have ne: "take (length p) (c # cs) \<noteq> p" by (auto split: if_splits)
  with Cons.prems obtain i' where i': "index_of p cs = Some i'" "i = Suc i'" by auto
  show ?case
  proof (cases j)
    case 0
    with ne show ?thesis by simp
  next
    case (Suc j')
    with Cons.prems i' have "j' < i'" by simp
    from Cons.IH[OF i'(1) this] Suc show ?thesis by simp
  qed
qed



lemma getSubstitution_plain:
  "CHR ''$'' \<notin> set r \<Longrightarrow> getSubstitution m pre post r = r"
  by (induction m pre post r rule: getSubstitution.induct) auto

lemma js_replace_plain:
  "CHR ''$'' \<notin> set r \<Longrightarrow> js_replace s p r = literal_replace s p r"
  by (simp add: js_replace_def literal_replace_def getSubstitution_plain Let_def split: option.splits)

lemma applyEdit_match:
  assumes "get_prop (JObj m) ''search'' = JStr s" "s \<noteq> []" "js_includes code s"
    and "get_prop (JObj m) ''replace'' = JStr r" "CHR ''$'' \<notin> set r"
  shows "applyEdit h code (JObj m) = Inr (literal_replace code s r)"
  using assms by (simp add: js_replace_plain)

lemma applyEdit_skip:
  assumes "get_prop (JObj m) ''search'' = JStr s" "\<not> js_includes code s"
  shows "applyEdit h code (JObj m) = Inr code"
  using assms by simp

lemma refineGame_patch:
  assumes "html_or_empty (html currentGame) = JStr code"
    and "ai (refinePrompt instruction (compressCodeForContext code)) = Returned text"
    and "parseAndSanitize (text_or_empty_object text) = Inr result"
    and "get_prop result ''editMode'' = JStr ''patch''"
    and "get_prop result ''edits'' = JArr edits"
    and "applyEdits h code edits = Inr patched"
  shows "refineGame h ai currentGame instruction
         = Inr (currentGame\<lparr>html := JStr patched,
                  instructions := instructions_or (get_prop result ''instructions'') (instructions currentGame)\<rparr>)"
proof -
  from assms(4) have "result \<noteq> JNull" "result \<noteq> JUndefined" by (auto simp: get_prop_def)
  with assms show ?thesis by (simp add: refineGame_def refineParsed_def Let_def)
qed


text \<open>
  A patch with one edit whose search text is found and whose replace text has no
  dollar sign: the first occurrence (the only one, when there is exactly one) is
  replaced by the replace text, and a response without \<^verbatim>\<open>instructions\<close> leaves the
  instructions as they were.
\<close>

lemma instructions_or_absent: "instructions_or JUndefined old = old"
  by (simp add: instructions_or_def)

lemma refineGame_patch_single:
  assumes "html_or_empty (html currentGame) = JStr code"
    and "ai (refinePrompt instruction (compressCodeForContext code)) = Returned text"
    and "parseAndSanitize (text_or_empty_object text) = Inr result"
    and "get_prop result ''editMode'' = JStr ''patch''"
    and "get_prop result ''edits'' = JArr [JObj edit]"
    and "get_prop result ''instructions'' = JUndefined"
    and "get_prop (JObj edit) ''search'' = JStr s" "s \<noteq> []" "js_includes code s"
    and "get_prop (JObj edit) ''replace'' = JStr r" "CHR ''$'' \<notin> set r"
  shows "refineGame h ai currentGame instruction
         = Inr (currentGame\<lparr>html := JStr (literal_replace code s r)\<rparr>)"
proof -
  have "applyEdits h code [JObj edit] = Inr (literal_replace code s r)"
    using applyEdit_match[OF assms(7-11)] by simp
  from refineGame_patch[where ai = ai and h = h, OF assms(1-5) this] assms(6) show ?thesis
    by (simp add: instructions_or_absent)
qed

text \<open>What \<^verbatim>\<open>replace\<close> does to a text that holds the pattern, whatever the replacement:
  the text before the first occurrence and the text after it stay, and what comes
  between them is the replacement itself when it has no dollar sign.\<close>

lemma js_replace_shape:
  assumes "js_includes code s"
  shows "\<exists>i mid. index_of s code = Some i
           \<and> js_replace code s r = take i code @ mid @ drop (i + length s) code
           \<and> (CHR ''$'' \<notin> set r \<longrightarrow> mid = r)"
proof -
  from assms obtain i where i: "index_of s code = Some i" by (auto simp: js_includes_def)
  then show ?thesis
    by (simp add: js_replace_def Let_def getSubstitution_plain)
qed

lemma applyEdit_found:
  assumes "get_prop (JObj m) ''search'' = JStr s" "s \<noteq> []" "js_includes code s"
    and "get_prop (JObj m) ''replace'' = JStr r"
  shows "applyEdit h code (JObj m) = Inr (js_replace code s r)"
  using assms by simp

text \<open>
  Claim C3, as amended. A patch with two edits, one whose non-empty search text occurs in
  the current html and one whose search text does not occur in the html at the moment
  the edit is tried (the current html when it comes first, the html already patched
  when it comes second): the call succeeds, and the html returned is the current html
  with the matching edit applied to it (\<^verbatim>\<open>replace\<close> on the first occurrence of the search
  text: what stands before and after that occurrence is kept, and for a replace text
  without a dollar sign the occurrence becomes the replace text); the other edit
  changes nothing.
\<close>

theorem refineGame_patch_two_edits:
  assumes "html_or_empty (html currentGame) = JStr code"
    and "ai (refinePrompt instruction (compressCodeForContext code)) = Returned text"
    and "parseAndSanitize (text_or_empty_object text) = Inr result"
    and "get_prop result ''editMode'' = JStr ''patch''"
    and "get_prop result ''edits'' = JArr edits"
    and "get_prop (JObj found) ''search'' = JStr s" "s \<noteq> []" "js_includes code s"
    and "get_prop (JObj found) ''replace'' = JStr r"
    and "get_prop (JObj lost) ''search'' = JStr s'"
    and "(edits = [JObj lost, JObj found] \<and> \<not> js_includes code s')
         \<or> (edits = [JObj found, JObj lost] \<and> \<not> js_includes (js_replace code s r) s')"
  shows "refineGame h ai currentGame instruction
         = Inr (currentGame\<lparr>html := JStr (js_replace code s r),
                  instructions := instructions_or (get_prop result ''instructions'') (instructions currentGame)\<rparr>)
         \<and> (\<exists>i mid. index_of s code = Some i
               \<and> js_replace code s r = take i code @ mid @ drop (i + length s) code
               \<and> (CHR ''$'' \<notin> set r \<longrightarrow> mid = r))"
proof
  note hit = applyEdit_found[OF assms(6-9)]
  have "applyEdits h code edits = Inr (js_replace code s r)"
    using assms(11)
  proof
    assume "edits = [JObj lost, JObj found] \<and> \<not> js_includes code s'"
    then show ?thesis
      using applyEdit_skip[OF assms(10), of code] hit by simp
  next
    assume "edits = [JObj found, JObj lost] \<and> \<not> js_includes (js_replace code s r) s'"
    then show ?thesis
      using applyEdit_skip[OF assms(10), of "js_replace code s r"] hit by simp
  qed
  from refineGame_patch[where ai = ai and h = h, OF assms(1-5) this]
  show "refineGame h ai currentGame instruction
         = Inr (currentGame\<lparr>html := JStr (js_replace code s r),
                  instructions := instructions_or (get_prop result ''instructions'') (instructions currentGame)\<rparr>)" .
next
  show "\<exists>i mid. index_of s code = Some i
               \<and> js_replace code s r = take i code @ mid @ drop (i + length s) code
               \<and> (CHR ''$'' \<notin> set r \<longrightarrow> mid = r)"
    by (rule js_replace_shape[OF assms(8)])
qed

text \<open>Witness for the amended C3: the second edit looks for \<^verbatim>\<open>0\<close>, which the current html
  holds and the html patched by the first edit does not.\<close>

lemma later_parse:
  \<open>JSON_parse ''{"editMode":"patch","edits":[{"search":"score = 0","replace":"lives = 3"},{"search":"0","replace":"100"}]}''
   = Some (JObj [(''editMode'', JStr ''patch''),
        (''edits'', JArr [JObj [(''search'', JStr ''score = 0''), (''replace'', JStr ''lives = 3'')],
                          JObj [(''search'', JStr ''0''), (''replace'', JStr ''100'')]])])\<close>
  by code_simp

theorem refineGame_patch_two_edits_witness:
  \<open>js_includes ''<p>score = 0;</p>'' ''score = 0''
   \<and> js_includes ''<p>score = 0;</p>'' ''0''
   \<and> \<not> js_includes ''<p>lives = 3;</p>'' ''0''
   \<and> refineGame v8
     (\<lambda>prompt. Returned (Some
        ''{"editMode":"patch","edits":[{"search":"score = 0","replace":"lives = 3"},{"search":"0","replace":"100"}]}''))
     game0 ''count lives instead''
   = Inr (game0\<lparr>html := JStr ''<p>lives = 3;</p>''\<rparr>)\<close>
proof -
  let ?text = \<open>''{"editMode":"patch","edits":[{"search":"score = 0","replace":"lives = 3"},{"search":"0","replace":"100"}]}''\<close>
  let ?found = "[(''search'', JStr ''score = 0''), (''replace'', JStr ''lives = 3'')]"
  let ?lost = "[(''search'', JStr ''0''), (''replace'', JStr ''100'')]"
  let ?result = "JObj [(''editMode'', JStr ''patch''), (''edits'', JArr [JObj ?found, JObj ?lost])]"
  let ?code = "''<p>score = 0;</p>''"
  have c: "html_or_empty (html game0) = JStr ?code"
    by (simp add: html_or_empty_def game0_def)
  have p: "parseAndSanitize (text_or_empty_object (Some ?text)) = Inr ?result"
    using later_parse by (simp add: parseAndSanitize_def text_or_empty_object_def)
  have rep: "js_replace ?code ''score = 0'' ''lives = 3'' = ''<p>lives = 3;</p>''"
    by (simp add: js_replace_def)
  have "refineGame v8 (\<lambda>prompt. Returned (Some ?text)) game0 ''count lives instead''
        = Inr (game0\<lparr>html := JStr (js_replace ?code ''score = 0'' ''lives = 3''),
                 instructions := instructions_or (get_prop ?result ''instructions'') (instructions game0)\<rparr>)"
    by (rule refineGame_patch_two_edits[where ai = "\<lambda>prompt. Returned (Some ?text)"
          and found = ?found and lost = ?lost and s' = "''0''"
          and edits = "[JObj ?found, JObj ?lost]", THEN conjunct1, OF c _ p])
      (simp_all add: get_prop_def js_includes_def rep)
  then show ?thesis
    by (simp add: rep get_prop_def instructions_or_def game0_def js_includes_def)
qed


text \<open>
  Claim C3 as stated fails in two ways. The edits are applied one after the other to the
  html as patched so far: a search text that does not occur in the current html, but
  occurs once the matching edit is applied, is found and replaced too (\<^verbatim>\<open>0\<close> becomes
  \<^verbatim>\<open>100\<close>, which the second edit turns into \<^verbatim>\<open>999\<close>). And an empty search text, which
  occurs in every html, is never applied: the loop tests the search block for
  truthiness first.
\<close>

lemma chained_parse:
  \<open>JSON_parse ''{"editMode":"patch","edits":[{"search":"0","replace":"100"},{"search":"100","replace":"999"}]}''
   = Some (JObj [(''editMode'', JStr ''patch''),
        (''edits'', JArr [JObj [(''search'', JStr ''0''), (''replace'', JStr ''100'')],
                          JObj [(''search'', JStr ''100''), (''replace'', JStr ''999'')]])])\<close>
  by code_simp

lemma empty_search_parse:
  \<open>JSON_parse ''{"editMode":"patch","edits":[{"search":"","replace":"<!-- v2 -->"},{"search":"lives","replace":"hearts"}]}''
   = Some (JObj [(''editMode'', JStr ''patch''),
        (''edits'', JArr [JObj [(''search'', JStr []), (''replace'', JStr ''<!-- v2 -->'')],
                          JObj [(''search'', JStr ''lives''), (''replace'', JStr ''hearts'')]])])\<close>
  by code_simp

theorem refineGame_patch_two_edits_counterexample:
  \<open>js_includes ''<p>score = 0;</p>'' ''0''
   \<and> \<not> js_includes ''<p>score = 0;</p>'' ''100''
   \<and> refineGame v8
        (\<lambda>prompt. Returned (Some
           ''{"editMode":"patch","edits":[{"search":"0","replace":"100"},{"search":"100","replace":"999"}]}''))
        game0 ''start with 100 points''
       = Inr (game0\<lparr>html := JStr ''<p>score = 999;</p>''\<rparr>)
   \<and> js_replace ''<p>score = 0;</p>'' ''0'' ''100'' = ''<p>score = 100;</p>''
   \<and> js_includes ''<p>score = 0;</p>'' []
   \<and> \<not> js_includes ''<p>score = 0;</p>'' ''lives''
   \<and> refineGame v8
        (\<lambda>prompt. Returned (Some
           ''{"editMode":"patch","edits":[{"search":"","replace":"<!-- v2 -->"},{"search":"lives","replace":"hearts"}]}''))
        game0 ''mark the version''
       = Inr (game0\<lparr>html := JStr ''<p>score = 0;</p>''\<rparr>)
   \<and> js_replace ''<p>score = 0;</p>'' [] ''<!-- v2 -->'' = ''<!-- v2 --><p>score = 0;</p>''\<close>
  by (simp add: refineGame_def html_or_empty_def game0_def text_or_empty_object_def
      parseAndSanitize_def chained_parse empty_search_parse refineParsed_def get_prop_def
      instructions_or_def js_includes_def js_replace_def)

text \<open>
  Claim C2 (a patch with a single edit whose search text occurs exactly once yields the
  html with that occurrence replaced by the replace text) is what the response schema
  promises (\<^verbatim>\<open>replace\<close>: the new code block to substitute), and what \<open>refineGame_patch_single\<close>
  proves for a replace text without a dollar sign. The code passes the replace text to
  \<^verbatim>\<open>String.prototype.replace\<close>, which expands \<^verbatim>\<open>$$\<close>, \<^verbatim>\<open>$&\<close>, \<^verbatim>\<open>$`\<close> and \<^verbatim>\<open>$'\<close> in it: the
  template literal \<^verbatim>\<open>`$${cash}`\<close> loses its dollar sign on the way into the artifact.
\<close>

lemma dollar_parse:
  \<open>JSON_parse ''{"editMode":"patch","edits":[{"search":"0","replace":"`$${cash}`"}]}''
   = Some (JObj [(''editMode'', JStr ''patch''),
        (''edits'', JArr [JObj [(''search'', JStr ''0''), (''replace'', JStr ''`$${cash}`'')]])])\<close>
  by code_simp

theorem refineGame_patch_dollar:
  \<open>index_of ''0'' ''<p>score = 0;</p>'' = Some 11
   \<and> \<not> js_includes (drop 12 ''<p>score = 0;</p>'') ''0''
   \<and> refineGame v8
        (\<lambda>prompt. Returned (Some
           ''{"editMode":"patch","edits":[{"search":"0","replace":"`$${cash}`"}]}''))
        game0 ''show the cash in dollars''
       = Inr (game0\<lparr>html := JStr ''<p>score = `${cash}`;</p>''\<rparr>)
   \<and> literal_replace ''<p>score = 0;</p>'' ''0'' ''`$${cash}`'' = ''<p>score = `$${cash}`;</p>''
   \<and> ''<p>score = `${cash}`;</p>'' \<noteq> ''<p>score = `$${cash}`;</p>''\<close>
  by (simp add: refineGame_def html_or_empty_def game0_def text_or_empty_object_def
      parseAndSanitize_def dollar_parse refineParsed_def get_prop_def
      instructions_or_def js_includes_def js_replace_def literal_replace_def)


section \<open>Prompt registry: the engine's instructions in the Build prompt\<close>

lemma engine_specs_keys:
  "map fst ENGINE_SPECS = [GameEngine_ThreeJS, GameEngine_ThreeJS_WebGPU, GameEngine_P5JS,
     GameEngine_BabylonJS, GameEngine_KaboomJS, GameEngine_RawWebGL]"
  by (simp add: ENGINE_SPECS_def)

lemma engine_specs_nonempty: "map_of ENGINE_SPECS key = Some spec \<Longrightarrow> spec \<noteq> []"
  by (auto simp: ENGINE_SPECS_def ENGINE_SPECS_ThreeJS_def ENGINE_SPECS_ThreeJS_WebGPU_def
      ENGINE_SPECS_P5JS_def ENGINE_SPECS_BabylonJS_def ENGINE_SPECS_KaboomJS_def
      ENGINE_SPECS_RawWebGL_def split: if_splits)

lemma baseline_lookup: "engine_lookup h GameEngine_ThreeJS = Own ENGINE_SPECS_ThreeJS"
  by (simp add: engine_lookup_def ENGINE_SPECS_def)

text \<open>
  Claim C9, as amended. For an engine identifier that is neither a key of the table nor
  the name of a property that the table inherits from \<^verbatim>\<open>Object.prototype\<close>, the Build
  prompt carries the instructions of the baseline engine (Three.js) in its section of
  engine-specific instructions; for an identifier that is a key of the table it carries
  that engine's own instructions.
\<close>

theorem BuildPrototype_engine_instructions:
  "(gameEngine prefs \<notin> set (map fst ENGINE_SPECS) \<and> gameEngine prefs \<notin> set (objectProto h) \<longrightarrow>
      BuildPrototype h blueprint prefs audioContextStr gpuRules
        = BuildPrototype_head h blueprint prefs gpuRules @ ENGINE_SPECS_ThreeJS
            @ BuildPrototype_tail prefs audioContextStr)
   \<and> (map_of ENGINE_SPECS (gameEngine prefs) = Some spec \<longrightarrow>
        BuildPrototype h blueprint prefs audioContextStr gpuRules
          = BuildPrototype_head h blueprint prefs gpuRules @ spec
              @ BuildPrototype_tail prefs audioContextStr)"
proof (intro conjI impI)
  assume "gameEngine prefs \<notin> set (map fst ENGINE_SPECS) \<and> gameEngine prefs \<notin> set (objectProto h)"
  then have "engine_lookup h (gameEngine prefs) = Missing"
    by (simp add: engine_lookup_def map_of_eq_None_iff[THEN iffD2])
  then show "BuildPrototype h blueprint prefs audioContextStr gpuRules
        = BuildPrototype_head h blueprint prefs gpuRules @ ENGINE_SPECS_ThreeJS
            @ BuildPrototype_tail prefs audioContextStr"
    by (simp add: BuildPrototype_def engine_instructions_def baseline_lookup)
next
  assume s: "map_of ENGINE_SPECS (gameEngine prefs) = Some spec"
  then have "engine_lookup h (gameEngine prefs) = Own spec"
    by (simp add: engine_lookup_def)
  with engine_specs_nonempty[OF s]
  show "BuildPrototype h blueprint prefs audioContextStr gpuRules
          = BuildPrototype_head h blueprint prefs gpuRules @ spec
              @ BuildPrototype_tail prefs audioContextStr"
    by (simp add: BuildPrototype_def engine_instructions_def)
qed


text \<open>Witness for the amended C9: an engine the table does not know, and p5.js.\<close>

theorem BuildPrototype_engine_instructions_witness:
  "BuildPrototype v8 game0 (prefs0\<lparr>gameEngine := ''Godot 4''\<rparr>) ''NO CUSTOM AUDIO.''
      ''CONSTRAINTS: OPTIMIZE FOR WEB.''
     = BuildPrototype_head v8 game0 (prefs0\<lparr>gameEngine := ''Godot 4''\<rparr>)
         ''CONSTRAINTS: OPTIMIZE FOR WEB.''
       @ ENGINE_SPECS_ThreeJS
       @ BuildPrototype_tail (prefs0\<lparr>gameEngine := ''Godot 4''\<rparr>) ''NO CUSTOM AUDIO.''
   \<and> BuildPrototype v8 game0 (prefs0\<lparr>gameEngine := ''p5.js (Creative Coding)''\<rparr>)
      ''NO CUSTOM AUDIO.'' ''CONSTRAINTS: OPTIMIZE FOR WEB.''
     = BuildPrototype_head v8 game0 (prefs0\<lparr>gameEngine := ''p5.js (Creative Coding)''\<rparr>)
         ''CONSTRAINTS: OPTIMIZE FOR WEB.''
       @ ENGINE_SPECS_P5JS
       @ BuildPrototype_tail (prefs0\<lparr>gameEngine := ''p5.js (Creative Coding)''\<rparr>)
           ''NO CUSTOM AUDIO.''"
proof -
  have a: "gameEngine (prefs0\<lparr>gameEngine := ''Godot 4''\<rparr>) \<notin> set (map fst ENGINE_SPECS)
           \<and> gameEngine (prefs0\<lparr>gameEngine := ''Godot 4''\<rparr>) \<notin> set (objectProto v8)"
    by (simp add: ENGINE_SPECS_def GameEngine_ThreeJS_def GameEngine_ThreeJS_WebGPU_def
      GameEngine_P5JS_def GameEngine_BabylonJS_def GameEngine_KaboomJS_def GameEngine_RawWebGL_def
      v8_def)
  have b: "map_of ENGINE_SPECS (gameEngine (prefs0\<lparr>gameEngine := ''p5.js (Creative Coding)''\<rparr>))
           = Some ENGINE_SPECS_P5JS"
    by (simp add: ENGINE_SPECS_def GameEngine_ThreeJS_def GameEngine_ThreeJS_WebGPU_def
      GameEngine_P5JS_def)
  from BuildPrototype_engine_instructions[THEN conjunct1, rule_format, OF a]
    BuildPrototype_engine_instructions[THEN conjunct2, rule_format, OF b]
  show ?thesis by (rule conjI)
qed

text \<open>
  Claim C9 as stated fails for an identifier that is not in the table but names a
  property of \<^verbatim>\<open>Object.prototype\<close>: the lookup finds the inherited value, which is
  truthy, and the prompt carries its text in place of the baseline instructions. The
  type \<^verbatim>\<open>GameEngine\<close> has no such member (nor any other that the table lacks).
\<close>

theorem BuildPrototype_prototype_key_counterexample:
  "''constructor'' \<notin> set (map fst ENGINE_SPECS)
   \<and> BuildPrototype v8 game0 (prefs0\<lparr>gameEngine := ''constructor''\<rparr>) ''NO CUSTOM AUDIO.''
        ''CONSTRAINTS: OPTIMIZE FOR WEB.''
       = BuildPrototype_head v8 game0 (prefs0\<lparr>gameEngine := ''constructor''\<rparr>)
           ''CONSTRAINTS: OPTIMIZE FOR WEB.''
         @ ''function Object() { [native code] }''
         @ BuildPrototype_tail (prefs0\<lparr>gameEngine := ''constructor''\<rparr>) ''NO CUSTOM AUDIO.''
   \<and> BuildPrototype v8 game0 (prefs0\<lparr>gameEngine := ''constructor''\<rparr>) ''NO CUSTOM AUDIO.''
        ''CONSTRAINTS: OPTIMIZE FOR WEB.''
       \<noteq> BuildPrototype_head v8 game0 (prefs0\<lparr>gameEngine := ''constructor''\<rparr>)
           ''CONSTRAINTS: OPTIMIZE FOR WEB.''
         @ ENGINE_SPECS_ThreeJS
         @ BuildPrototype_tail (prefs0\<lparr>gameEngine := ''constructor''\<rparr>) ''NO CUSTOM AUDIO.''"
proof -
  have k: "''constructor'' \<notin> set (map fst ENGINE_SPECS)"
    by (simp add: ENGINE_SPECS_def GameEngine_ThreeJS_def GameEngine_ThreeJS_WebGPU_def
      GameEngine_P5JS_def GameEngine_BabylonJS_def GameEngine_KaboomJS_def GameEngine_RawWebGL_def)
  then have "map_of ENGINE_SPECS ''constructor'' = None"
    by (simp add: map_of_eq_None_iff)
  then have e: "engine_instructions v8 ''constructor'' = ''function Object() { [native code] }''"
    by (simp add: engine_instructions_def engine_lookup_def v8_def)
  have n: "''function Object() { [native code] }'' \<noteq> ENGINE_SPECS_ThreeJS"
    by (simp add: ENGINE_SPECS_ThreeJS_def)
  show ?thesis using k e n by (simp add: BuildPrototype_def)
qed


section \<open>Response sanitizer: recovering a wrapped payload\<close>





subsection \<open>An object between the first and the last brace\<close>



subsection \<open>A payload in a fenced-code block\<close>



















lemma last_suffix: "r \<noteq> [] \<Longrightarrow> last (p @ r) = last r"
  by simp






















subsection \<open>The claim\<close>









lemma result_done: \<open>parseAndSanitize (''Result: '' @ ''[{"a":1}]'' @ '' done'') = Inr (JObj [(''a'', JNum 1)])\<close>
  by code_simp




section \<open>Context compressor: idempotence\<close>

text \<open>
  A text is clean for a pattern when the pattern matches at none of its positions. A
  global replacement leaves a clean text as it is; the work is to show that the output of
  the compressor is clean for both of its patterns.
\<close>

definition clean :: "(string \<Rightarrow> nat option) \<Rightarrow> string \<Rightarrow> bool" where
  "clean m s \<longleftrightarrow> (\<forall>k<length s. m (drop k s) = None)"

lemma clean_Cons: "clean m (c # cs) \<longleftrightarrow> m (c # cs) = None \<and> clean m cs"
proof
  assume a: "clean m (c # cs)"
  then have "m (drop 0 (c # cs)) = None" unfolding clean_def by blast
  moreover have "clean m cs"
    unfolding clean_def
  proof (intro allI impI)
    fix k assume "k < length cs"
    then have "Suc k < length (c # cs)" by simp
    with a have "m (drop (Suc k) (c # cs)) = None" unfolding clean_def by blast
    then show "m (drop k cs) = None" by simp
  qed
  ultimately show "m (c # cs) = None \<and> clean m cs" by simp
next
  assume a: "m (c # cs) = None \<and> clean m cs"
  show "clean m (c # cs)"
    unfolding clean_def
  proof (intro allI impI)
    fix k assume k: "k < length (c # cs)"
    show "m (drop k (c # cs)) = None"
    proof (cases k)
      case 0
      with a show ?thesis by simp
    next
      case (Suc j)
      with k a show ?thesis by (simp add: clean_def)
    qed
  qed
qed

lemma clean_Nil: "clean m []"
  by (simp add: clean_def)

lemma clean_drop: "clean m s \<Longrightarrow> clean m (drop n s)"
  by (auto simp: clean_def)

lemma clean_append:
  assumes "\<And>k. k < length a \<Longrightarrow> m (drop k a @ b) = None" and "clean m b"
  shows "clean m (a @ b)"
  unfolding clean_def
proof (intro allI impI)
  fix k assume "k < length (a @ b)"
  show "m (drop k (a @ b)) = None"
  proof (cases "k < length a")
    case True
    with assms(1) show ?thesis by simp
  next
    case False
    with \<open>k < length (a @ b)\<close> have "k - length a < length b" by simp
    with assms(2) have "m (drop (k - length a) b) = None" by (simp add: clean_def)
    with False show ?thesis by simp
  qed
qed

lemma greplace_clean: "clean m s \<Longrightarrow> greplace m rep s = s"
  by (induction s) (auto simp: clean_Cons)

text \<open>
  Three properties of a pattern, of which the argument is made. A pattern avoids a
  character when none of its matches contains it after the first position (and every
  match is at least one character long, inside the text). It is local when a match that
  ends inside a prefix of the text is still found whatever follows the prefix. A
  replacement text is inert for it when no match starts inside the replacement text,
  whatever follows.
\<close>

definition avoids :: "(string \<Rightarrow> nat option) \<Rightarrow> char \<Rightarrow> bool" where
  "avoids m c \<longleftrightarrow>
     (\<forall>s n. m s = Some n \<longrightarrow> 0 < n \<and> n \<le> length s \<and> c \<notin> set (take (n - 1) (tl s)))"

definition local_match :: "(string \<Rightarrow> nat option) \<Rightarrow> bool" where
  "local_match m \<longleftrightarrow> (\<forall>p z z' n. m (p @ z) = Some n \<and> n \<le> length p \<longrightarrow> m (p @ z') \<noteq> None)"

definition inert :: "(string \<Rightarrow> nat option) \<Rightarrow> string \<Rightarrow> bool" where
  "inert m rep \<longleftrightarrow> (\<forall>k z. k < length rep \<longrightarrow> m (drop k rep @ z) = None)"

text \<open>A match found across a position of the output, started before a replacement, was
  there in the input.\<close>

lemma match_survives:
  "avoids m (hd rep) \<Longrightarrow> rep \<noteq> [] \<Longrightarrow> local_match m \<Longrightarrow> u \<noteq> []
   \<Longrightarrow> m (u @ greplace m' rep x) = Some n \<Longrightarrow> m (u @ x) \<noteq> None"
proof (induction m' rep x arbitrary: u n rule: greplace.induct)
  case (1 m' rep)
  then show ?case by simp
next
  case (2 m' rep c cs)
  note av = "2.prems"(1) and ne = "2.prems"(2) and lo = "2.prems"(3) and u = "2.prems"(4)
  show ?case
  proof (cases "m' (c # cs)")
    case None
    with "2.prems" have "m ((u @ [c]) @ greplace m' rep cs) = Some n" by simp
    from "2.IH"(1)[OF None av ne lo _ this] show ?thesis by simp
  next
    case (Some k)
    let ?y = "greplace m' rep (drop (k - 1) cs)"
    from Some "2.prems" have mm: "m (u @ rep @ ?y) = Some n" by simp
    with av have n: "0 < n" "n \<le> length (u @ rep @ ?y)"
      and fresh: "hd rep \<notin> set (take (n - 1) (tl (u @ rep @ ?y)))"
      unfolding avoids_def by blast+
    have "n \<le> length u"
    proof (rule ccontr)
      assume "\<not> n \<le> length u"
      then have lt: "length u - 1 < n - 1" using u by (cases u) auto
      define w where "w = tl u @ rep @ ?y"
      from u have tl: "tl (u @ rep @ ?y) = w" unfolding w_def by (cases u) auto
      from ne have at: "w ! (length u - 1) = hd rep"
        unfolding w_def by (cases rep) (auto simp: nth_append)
      have len: "length u - 1 < length w" unfolding w_def using ne by (cases rep) auto
      from lt have "take (n - 1) w ! (length u - 1) = w ! (length u - 1)"
        by (rule nth_take)
      moreover from lt len have "length u - 1 < length (take (n - 1) w)" by simp
      ultimately have "hd rep \<in> set (take (n - 1) w)"
        using at by (metis nth_mem)
      with fresh tl show False by simp
    qed
    with mm lo show ?thesis unfolding local_match_def by blast
  qed
qed

lemma inert_clean_append: "inert m rep \<Longrightarrow> clean m y \<Longrightarrow> clean m (rep @ y)"
  by (rule clean_append) (auto simp: inert_def)

lemma clean_greplace_other:
  "avoids m (hd rep) \<Longrightarrow> rep \<noteq> [] \<Longrightarrow> local_match m \<Longrightarrow> inert m rep \<Longrightarrow> clean m x
   \<Longrightarrow> clean m (greplace m' rep x)"
proof (induction m' rep x rule: greplace.induct)
  case (1 m' rep)
  then show ?case by (simp add: clean_Nil)
next
  case (2 m' rep c cs)
  from "2.prems"(5) have here: "m (c # cs) = None" and rest: "clean m cs"
    by (simp_all add: clean_Cons)
  show ?case
  proof (cases "m' (c # cs)")
    case None
    have "m (c # greplace m' rep cs) = None"
    proof (rule ccontr)
      assume "m (c # greplace m' rep cs) \<noteq> None"
      then obtain n where "m ([c] @ greplace m' rep cs) = Some n" by auto
      from match_survives[OF "2.prems"(1-3) _ this] here show False by simp
    qed
    moreover have "clean m (greplace m' rep cs)"
      by (rule "2.IH"(1)[OF None "2.prems"(1-4) rest])
    ultimately show ?thesis using None by (simp add: clean_Cons)
  next
    case (Some k)
    have "clean m (drop (k - 1) cs)" using rest by (rule clean_drop)
    from "2.IH"(2)[OF Some "2.prems"(1-4) this]
    have "clean m (greplace m' rep (drop (k - 1) cs))" .
    with "2.prems"(4) show ?thesis using Some by (simp add: inert_clean_append)
  qed
qed

lemma clean_greplace_self:
  "avoids m (hd rep) \<Longrightarrow> rep \<noteq> [] \<Longrightarrow> local_match m \<Longrightarrow> inert m rep
   \<Longrightarrow> clean m (greplace m rep x)"
proof (induction m rep x rule: greplace.induct)
  case (1 m rep)
  then show ?case by (simp add: clean_Nil)
next
  case (2 m rep c cs)
  show ?case
  proof (cases "m (c # cs)")
    case None
    have "m (c # greplace m rep cs) = None"
    proof (rule ccontr)
      assume "m (c # greplace m rep cs) \<noteq> None"
      then obtain n where "m ([c] @ greplace m rep cs) = Some n" by auto
      from match_survives[OF "2.prems"(1-3) _ this] None show False by simp
    qed
    moreover have "clean m (greplace m rep cs)"
      by (rule "2.IH"(1)[OF None "2.prems"])
    ultimately show ?thesis using None by (simp add: clean_Cons)
  next
    case (Some k)
    from "2.IH"(2)[OF Some "2.prems"]
    have "clean m (greplace m rep (drop (k - 1) cs))" .
    with "2.prems"(4) show ?thesis using Some by (simp add: inert_clean_append)
  qed
qed

subsection \<open>The pattern of data URIs\<close>

lemma strip_prefix_iff: "strip_prefix p s = Some r \<longleftrightarrow> s = p @ r"
  by (induction p s rule: strip_prefix.induct) auto

lemma takeWhile_run:
  "list_all P xs \<Longrightarrow> \<not> P c \<Longrightarrow> takeWhile P (xs @ c # ys) = xs"
  by (induction xs) auto

lemma dropWhile_run:
  "list_all P xs \<Longrightarrow> \<not> P c \<Longrightarrow> dropWhile P (xs @ c # ys) = c # ys"
  by (induction xs) auto

lemma list_all_takeWhile: "list_all P (takeWhile P xs)"
  by (induction xs) auto

lemma match_base64_SomeD:
  assumes "match_base64 s = Some n"
  shows "\<exists>t1 t2 t3 rest.
           s = ''data:'' @ t1 @ ''/'' @ t2 @ '';base64,'' @ t3 @ rest
           \<and> t1 \<noteq> [] \<and> t2 \<noteq> [] \<and> t3 \<noteq> []
           \<and> list_all lower_char t1 \<and> list_all lower_char t2 \<and> list_all b64_char t3
           \<and> n = 14 + length t1 + length t2 + length t3"
proof -
  from assms obtain s1 where s1: "strip_prefix ''data:'' s = Some s1"
    by (auto simp: match_base64_def split: option.splits)
  let ?t1 = "takeWhile lower_char s1"
  from assms s1 have t1: "?t1 \<noteq> []"
    by (auto simp: match_base64_def Let_def split: option.splits if_splits)
  from assms s1 t1 obtain s3 where s3: "strip_prefix ''/'' (dropWhile lower_char s1) = Some s3"
    by (auto simp: match_base64_def Let_def split: option.splits if_splits)
  let ?t2 = "takeWhile lower_char s3"
  from assms s1 t1 s3 have t2: "?t2 \<noteq> []"
    by (auto simp: match_base64_def Let_def split: option.splits if_splits)
  from assms s1 t1 s3 t2 obtain s5 where
    s5: "strip_prefix '';base64,'' (dropWhile lower_char s3) = Some s5"
    by (auto simp: match_base64_def Let_def split: option.splits if_splits)
  let ?t3 = "takeWhile b64_char s5"
  from assms s1 t1 s3 t2 s5 have t3: "?t3 \<noteq> []"
    and n: "n = 14 + length ?t1 + length ?t2 + length ?t3"
    by (auto simp: match_base64_def Let_def split: option.splits if_splits)
  have "s = ''data:'' @ s1" using s1 by (simp only: strip_prefix_iff)
  moreover have "s1 = ?t1 @ dropWhile lower_char s1" by simp
  moreover have "dropWhile lower_char s1 = ''/'' @ s3" using s3 by (simp only: strip_prefix_iff)
  moreover have "s3 = ?t2 @ dropWhile lower_char s3" by simp
  moreover have "dropWhile lower_char s3 = '';base64,'' @ s5"
    using s5 by (simp only: strip_prefix_iff)
  moreover have "s5 = ?t3 @ dropWhile b64_char s5" by simp
  ultimately have "s = ''data:'' @ ?t1 @ ''/'' @ ?t2 @ '';base64,'' @ ?t3 @ dropWhile b64_char s5"
    by metis
  with t1 t2 t3 n show ?thesis
    using list_all_takeWhile[of lower_char s1] list_all_takeWhile[of lower_char s3]
      list_all_takeWhile[of b64_char s5]
    by blast
qed

lemma match_base64_SomeI:
  assumes "t1 \<noteq> []" "t2 \<noteq> []" "t3 \<noteq> []"
    and "list_all lower_char t1" "list_all lower_char t2" "list_all b64_char t3"
  shows "match_base64 (''data:'' @ t1 @ ''/'' @ t2 @ '';base64,'' @ t3 @ w) \<noteq> None"
proof -
  let ?s5 = "t3 @ w"
  let ?s4 = "'';base64,'' @ ?s5"
  let ?s3 = "t2 @ ?s4"
  let ?s2 = "''/'' @ ?s3"
  let ?s1 = "t1 @ ?s2"
  have p1: "strip_prefix ''data:'' (''data:'' @ ?s1) = Some ?s1"
    by (simp only: strip_prefix_iff)
  have slash: "\<not> lower_char (CHR ''/'')" and semi: "\<not> lower_char (CHR '';'')"
    by (simp_all add: lower_char_def)
  have tw1: "takeWhile lower_char ?s1 = t1" and dw1: "dropWhile lower_char ?s1 = ?s2"
    using takeWhile_run[OF assms(4) slash] dropWhile_run[OF assms(4) slash] by simp_all
  have p2: "strip_prefix ''/'' ?s2 = Some ?s3" by (simp only: strip_prefix_iff)
  have tw2: "takeWhile lower_char ?s3 = t2" and dw2: "dropWhile lower_char ?s3 = ?s4"
    using takeWhile_run[OF assms(5) semi] dropWhile_run[OF assms(5) semi] by simp_all
  have p3: "strip_prefix '';base64,'' ?s4 = Some ?s5" by (simp only: strip_prefix_iff)
  have tw3: "takeWhile b64_char ?s5 \<noteq> []"
    using assms(3,6) by (cases t3) auto
  show ?thesis
    unfolding match_base64_def
    by (simp only: p1 p2 p3 tw1 dw1 tw2 dw2 Let_def option.case assms(1,2) tw3 if_False)
      simp
qed


lemma take_tl_subset: "set (take (n - 1) (tl s)) \<subseteq> set (take n s)"
  by (cases s; cases n) auto

lemma match_base64_chars:
  assumes "match_base64 s = Some n"
  shows "0 < n \<and> n \<le> length s
         \<and> (\<forall>x\<in>set (take n s). lower_char x \<or> b64_char x \<or> x = CHR '':'' \<or> x = CHR '';''
               \<or> x = CHR '','')"
proof -
  from match_base64_SomeD[OF assms] obtain t1 t2 t3 rest where
    s: "s = ''data:'' @ t1 @ ''/'' @ t2 @ '';base64,'' @ t3 @ rest"
    and c: "list_all lower_char t1" "list_all lower_char t2" "list_all b64_char t3"
    and n: "n = 14 + length t1 + length t2 + length t3"
    by blast
  define M where "M = ''data:'' @ t1 @ ''/'' @ t2 @ '';base64,'' @ t3"
  have sM: "s = M @ rest" unfolding s M_def by simp
  have len: "length M = n" unfolding n M_def by simp
  have "take n s = M" unfolding sM len[symmetric] by simp
  moreover have "\<forall>x\<in>set M.
      lower_char x \<or> b64_char x \<or> x = CHR '':'' \<or> x = CHR '';'' \<or> x = CHR '',''"
    unfolding M_def using c by (auto simp: list_all_iff lower_char_def b64_char_def is_digit_def)
  moreover have "0 < n \<and> n \<le> length s" unfolding sM len[symmetric] M_def by simp
  ultimately show ?thesis by simp
qed

lemma avoids_base64:
  assumes "\<not> lower_char c" "\<not> b64_char c" "c \<noteq> CHR '':''" "c \<noteq> CHR '';''" "c \<noteq> CHR '',''"
  shows "avoids match_base64 c"
  unfolding avoids_def
proof (intro allI impI)
  fix s n assume "match_base64 s = Some n"
  from match_base64_chars[OF this] assms take_tl_subset[of n s]
  show "0 < n \<and> n \<le> length s \<and> c \<notin> set (take (n - 1) (tl s))" by blast
qed

lemma local_match_base64: "local_match match_base64"
  unfolding local_match_def
proof (intro allI impI)
  fix p z z' n
  assume a: "match_base64 (p @ z) = Some n \<and> n \<le> length p"
  from match_base64_SomeD[of "p @ z" n] a obtain t1 t2 t3 rest where
    s: "p @ z = ''data:'' @ t1 @ ''/'' @ t2 @ '';base64,'' @ t3 @ rest"
    and ne: "t1 \<noteq> []" "t2 \<noteq> []" "t3 \<noteq> []"
    and c: "list_all lower_char t1" "list_all lower_char t2" "list_all b64_char t3"
    and n: "n = 14 + length t1 + length t2 + length t3"
    by blast
  define M where "M = ''data:'' @ t1 @ ''/'' @ t2 @ '';base64,'' @ t3"
  have sM: "p @ z = M @ rest" unfolding s M_def by simp
  have len: "length M = n" unfolding n M_def by simp
  have "take n (p @ z) = M" unfolding sM len[symmetric] by simp
  with a have "take n p = M" by simp
  then have "p = M @ drop n p" by (metis append_take_drop_id)
  then have "p @ z' = M @ (drop n p @ z')" by (metis append.assoc)
  then have eq: "p @ z' = ''data:'' @ t1 @ ''/'' @ t2 @ '';base64,'' @ t3 @ (drop n p @ z')"
    unfolding M_def by simp
  show "match_base64 (p @ z') \<noteq> None"
    by (subst eq) (rule match_base64_SomeI[OF ne c])
qed

lemma inert_by_head:
  assumes "\<And>s n. m s = Some n \<Longrightarrow> s \<noteq> [] \<and> hd s = c"
    and "c \<notin> set (tl rep)" and "\<And>z. rep \<noteq> [] \<Longrightarrow> m (rep @ z) = None"
  shows "inert m rep"
  unfolding inert_def
proof (intro allI impI)
  fix k z assume k: "k < length rep"
  show "m (drop k rep @ z) = None"
  proof (cases k)
    case 0
    with assms(3)[of z] k show ?thesis by auto
  next
    case (Suc j)
    show ?thesis
    proof (rule ccontr)
      assume "m (drop k rep @ z) \<noteq> None"
      then obtain n where "m (drop k rep @ z) = Some n" by auto
      from assms(1)[OF this] k have "hd (drop k rep) = c" by simp
      with k have "rep ! k = c" by (simp add: hd_drop_conv_nth)
      moreover from k Suc have "rep ! k \<in> set (tl rep)"
        by (cases rep) auto
      ultimately show False using assms(2) by simp
    qed
  qed
qed

lemma match_base64_head: "match_base64 s = Some n \<Longrightarrow> s \<noteq> [] \<and> hd s = CHR ''d''"
  by (auto simp: match_base64_def strip_prefix_iff split: option.splits)

lemma inert_base64:
  assumes "CHR ''d'' \<notin> set rep"
  shows "inert match_base64 rep"
proof (rule inert_by_head[where c = "CHR ''d''"])
  show "\<And>s n. match_base64 s = Some n \<Longrightarrow> s \<noteq> [] \<and> hd s = CHR ''d''"
    by (rule match_base64_head)
  show "CHR ''d'' \<notin> set (tl rep)" using assms by (cases rep) auto
  show "match_base64 (rep @ z) = None" if "rep \<noteq> []" for z
  proof (rule ccontr)
    assume "match_base64 (rep @ z) \<noteq> None"
    then obtain n where n: "match_base64 (rep @ z) = Some n" by auto
    from match_base64_head[OF n] that have "hd rep = CHR ''d''" by simp
    with that assms show False by (cases rep) auto
  qed
qed

subsection \<open>The pattern of numeric sequences\<close>

definition entry_char :: "char \<Rightarrow> bool" where
  "entry_char c \<longleftrightarrow> js_space c \<or> c = CHR ''-'' \<or> num_dot c"

lemma list_all_split:
  "list_all Q (takeWhile P xs) \<Longrightarrow> list_all Q (dropWhile P xs) \<Longrightarrow> list_all Q xs"
  by (metis list_all_append takeWhile_dropWhile_id)

lemma list_all_weaken: "list_all P xs \<Longrightarrow> (\<And>x. P x \<Longrightarrow> Q x) \<Longrightarrow> list_all Q xs"
  by (auto simp: list_all_iff)

lemma after_sign_chars:
  assumes "list_all entry_char (after_sign e)"
  shows "list_all entry_char e"
proof (rule list_all_split[where P = js_space])
  show "list_all entry_char (takeWhile js_space e)"
    by (rule list_all_weaken[OF list_all_takeWhile]) (simp add: entry_char_def)
  show "list_all entry_char (dropWhile js_space e)"
  proof (cases "dropWhile js_space e")
    case Nil
    show ?thesis unfolding Nil by simp
  next
    case (Cons c r)
    from assms have "list_all entry_char (if c = CHR ''-'' then r else c # r)"
      unfolding after_sign_def Let_def Cons by simp
    then have "list_all entry_char (c # r)"
      by (auto simp: entry_char_def split: if_splits)
    then show ?thesis unfolding Cons .
  qed
qed

lemma inner_entry_chars:
  assumes "inner_entry e"
  shows "list_all entry_char e"
proof (rule after_sign_chars)
  from assms have "list_all num_dot (after_sign e)"
    by (simp add: inner_entry_def numeral_run_def)
  then show "list_all entry_char (after_sign e)"
    by (rule list_all_weaken) (simp add: entry_char_def)
qed

lemma last_entry_chars:
  assumes "last_entry e"
  shows "list_all entry_char e"
proof (rule after_sign_chars, rule list_all_split[where P = num_dot])
  show "list_all entry_char (takeWhile num_dot (after_sign e))"
    by (rule list_all_weaken[OF list_all_takeWhile]) (simp add: entry_char_def)
  from assms have "list_all js_space (dropWhile num_dot (after_sign e))"
    by (simp add: last_entry_def)
  then show "list_all entry_char (dropWhile num_dot (after_sign e))"
    by (rule list_all_weaken) (simp add: entry_char_def)
qed

lemma split_commas_ne: "split_commas s \<noteq> []"
  by (induction s) (auto split: list.splits)

lemma split_commas_chars:
  "(\<forall>e\<in>set (split_commas s). list_all P e) \<Longrightarrow> P (CHR '','') \<Longrightarrow> list_all P s"
proof (induction s)
  case Nil
  then show ?case by simp
next
  case (Cons c cs)
  from split_commas_ne[of cs] obtain e es where es: "split_commas cs = e # es"
    by (cases "split_commas cs") auto
  with Cons.prems have "\<forall>x\<in>set (split_commas cs). list_all P x" and "P c"
    by (auto split: if_splits)
  with Cons.IH Cons.prems(2) show ?case by simp
qed

lemma in_butlast_or_last: "e \<in> set es \<Longrightarrow> e \<in> set (butlast es) \<or> e = last es"
  by (induction es) auto

lemma entries_ok_chars:
  assumes "entries_ok es"
  shows "\<forall>e\<in>set es. list_all entry_char e"
proof
  fix e assume "e \<in> set es"
  then have "e \<in> set (butlast es) \<or> e = last es" by (rule in_butlast_or_last)
  then show "list_all entry_char e"
  proof
    assume "e \<in> set (butlast es)"
    with assms have "inner_entry e" by (simp add: entries_ok_def list_all_iff)
    then show ?thesis by (rule inner_entry_chars)
  next
    assume "e = last es"
    with assms have "last_entry e" by (simp add: entries_ok_def)
    then show ?thesis by (rule last_entry_chars)
  qed
qed

lemma body_chars:
  assumes "entries_ok (split_commas body)"
  shows "list_all (\<lambda>c. entry_char c \<or> c = CHR '','') body"
proof (rule split_commas_chars)
  show "\<forall>e\<in>set (split_commas body). list_all (\<lambda>c. entry_char c \<or> c = CHR '','') e"
    using entries_ok_chars[OF assms] by (auto simp: list_all_iff)
qed simp

lemma match_geometry_SomeD:
  assumes "match_geometry s = Some n"
  shows "\<exists>r. s = CHR ''['' # r \<and> length (takeWhile (\<lambda>x. x \<noteq> CHR '']'') r) < length r
             \<and> entries_ok (split_commas (takeWhile (\<lambda>x. x \<noteq> CHR '']'') r))
             \<and> n = length (takeWhile (\<lambda>x. x \<noteq> CHR '']'') r) + 2"
proof (cases s)
  case Nil
  with assms show ?thesis by (simp add: match_geometry_def)
next
  case (Cons c r)
  with assms have "c = CHR ''['' \<and> length (takeWhile (\<lambda>x. x \<noteq> CHR '']'') r) < length r
      \<and> entries_ok (split_commas (takeWhile (\<lambda>x. x \<noteq> CHR '']'') r))
      \<and> n = length (takeWhile (\<lambda>x. x \<noteq> CHR '']'') r) + 2"
    by (simp add: match_geometry_def Let_def split: if_splits)
  with Cons show ?thesis by blast
qed

lemma takeWhile_then:
  "length (takeWhile P r) < length r \<Longrightarrow> take (Suc (length (takeWhile P r))) r = takeWhile P r @ [r ! length (takeWhile P r)] \<and> \<not> P (r ! length (takeWhile P r))"
  by (simp add: take_Suc_conv_app_nth nth_length_takeWhile takeWhile_eq_take[symmetric])

lemma avoids_geometry: "avoids match_geometry (CHR ''['')"
  unfolding avoids_def
proof (intro allI impI)
  fix s n assume m: "match_geometry s = Some n"
  from match_geometry_SomeD[OF m] obtain r where
    s: "s = CHR ''['' # r" and l: "length (takeWhile (\<lambda>x. x \<noteq> CHR '']'') r) < length r"
    and ok: "entries_ok (split_commas (takeWhile (\<lambda>x. x \<noteq> CHR '']'') r))"
    and n: "n = length (takeWhile (\<lambda>x. x \<noteq> CHR '']'') r) + 2"
    by blast
  let ?body = "takeWhile (\<lambda>x. x \<noteq> CHR '']'') r"
  from takeWhile_then[OF l] have t: "take (n - 1) (tl s) = ?body @ [CHR '']'']"
    unfolding s n by simp
  have "\<not> (entry_char (CHR ''['') \<or> CHR ''['' = CHR '','')"
    by (simp add: entry_char_def js_space_def num_dot_def is_digit_def)
  with body_chars[OF ok] have "CHR ''['' \<notin> set ?body"
    unfolding list_all_iff by blast
  with t have "CHR ''['' \<notin> set (take (n - 1) (tl s))" by simp
  moreover have "0 < n \<and> n \<le> length s" using l unfolding s n by simp
  ultimately show "0 < n \<and> n \<le> length s \<and> CHR ''['' \<notin> set (take (n - 1) (tl s))" by simp
qed

lemma takeWhile_inside:
  "length (takeWhile P (xs @ ys)) < length xs \<Longrightarrow> takeWhile P (xs @ zs) = takeWhile P (xs @ ys)"
  by (induction xs) auto

lemma local_match_geometry: "local_match match_geometry"
  unfolding local_match_def
proof (intro allI impI)
  fix p z z' n
  assume a: "match_geometry (p @ z) = Some n \<and> n \<le> length p"
  from match_geometry_SomeD[of "p @ z" n] a obtain r where
    s: "p @ z = CHR ''['' # r" and l: "length (takeWhile (\<lambda>x. x \<noteq> CHR '']'') r) < length r"
    and ok: "entries_ok (split_commas (takeWhile (\<lambda>x. x \<noteq> CHR '']'') r))"
    and n: "n = length (takeWhile (\<lambda>x. x \<noteq> CHR '']'') r) + 2"
    by blast
  from a n have "p \<noteq> []" by auto
  with s obtain q where p: "p = CHR ''['' # q" and r: "r = q @ z" by (cases p) auto
  from a n p r have inside: "length (takeWhile (\<lambda>x. x \<noteq> CHR '']'') (q @ z)) < length q" by simp
  from takeWhile_inside[OF inside, of z']
  have same: "takeWhile (\<lambda>x. x \<noteq> CHR '']'') (q @ z') = takeWhile (\<lambda>x. x \<noteq> CHR '']'') (q @ z)" .
  have "match_geometry (p @ z') = Some n"
    using ok inside unfolding p r n by (simp add: match_geometry_def same Let_def)
  then show "match_geometry (p @ z') \<noteq> None" by simp
qed

lemma match_geometry_head: "match_geometry s = Some n \<Longrightarrow> s \<noteq> [] \<and> hd s = CHR ''[''"
  using match_geometry_SomeD[of s n] by auto

lemma placeholder_body:
  "takeWhile (\<lambda>x. x \<noteq> CHR '']'') (''...GEOMETRY_DATA_HIDDEN...]'' @ z) = ''...GEOMETRY_DATA_HIDDEN...''"
  by simp

lemma inert_geometry: "inert match_geometry ''[...GEOMETRY_DATA_HIDDEN...]''"
proof (rule inert_by_head[where c = "CHR ''[''"])
  show "\<And>s n. match_geometry s = Some n \<Longrightarrow> s \<noteq> [] \<and> hd s = CHR ''[''"
    by (rule match_geometry_head)
  show "CHR ''['' \<notin> set (tl ''[...GEOMETRY_DATA_HIDDEN...]'')" by simp
  show "match_geometry (''[...GEOMETRY_DATA_HIDDEN...]'' @ z) = None" for z
  proof (rule ccontr)
    assume "match_geometry (''[...GEOMETRY_DATA_HIDDEN...]'' @ z) \<noteq> None"
    then obtain n where "match_geometry (''[...GEOMETRY_DATA_HIDDEN...]'' @ z) = Some n" by auto
    from match_geometry_SomeD[OF this] obtain r where
      r: "''[...GEOMETRY_DATA_HIDDEN...]'' @ z = CHR ''['' # r"
      and ok: "entries_ok (split_commas (takeWhile (\<lambda>x. x \<noteq> CHR '']'') r))"
      by blast
    from r have "r = ''...GEOMETRY_DATA_HIDDEN...]'' @ z" by simp
    with ok have "entries_ok (split_commas ''...GEOMETRY_DATA_HIDDEN...'')"
      by (simp only: placeholder_body)
    from body_chars[OF this] have "entry_char (CHR ''G'') \<or> CHR ''G'' = CHR '',''"
      unfolding list_all_iff by simp
    then show False
      by (simp add: entry_char_def js_space_def num_dot_def is_digit_def)
  qed
qed

subsection \<open>The compressor\<close>

lemma compress_example:
  \<open>compressCodeForContext
     ''const v = [1, 2,3,4,5,6,7,8,9,10,11,12,13,14,-1.5 ]; img = "data:image/png;base64,iVBORw0KGgo=";''
   = ''const v = [...GEOMETRY_DATA_HIDDEN...]; img = "<BASE64_DATA_HIDDEN>";''\<close>
  by code_simp

lemma compress_ten_numbers:
  "compressCodeForContext ''v = [1,2,3,4,5,6,7,8,9,10];'' = ''v = [1,2,3,4,5,6,7,8,9,10];''"
  by code_simp

text \<open>
  Claim C8. The compressor is idempotent: compressing a compressed text gives it back,
  for every text. The compressor is \<^verbatim>\<open>compressCodeForContext\<close>: it puts a placeholder for
  each base64 data URI and then one for each literal of more than ten numbers.
\<close>

theorem compress_idempotent:
  "compressCodeForContext (compressCodeForContext text) = compressCodeForContext text"
proof (cases "text = []")
  case True
  then show ?thesis by (simp add: compressCodeForContext_def)
next
  case False
  define t1 where "t1 = greplace match_base64 ''<BASE64_DATA_HIDDEN>'' text"
  define t2 where "t2 = greplace match_geometry ''[...GEOMETRY_DATA_HIDDEN...]'' t1"
  have c: "compressCodeForContext text = t2"
    using False by (simp add: compressCodeForContext_def t1_def t2_def)
  have "clean match_base64 t1"
    unfolding t1_def
    by (rule clean_greplace_self)
      (simp_all add: avoids_base64 local_match_base64 inert_base64 lower_char_def b64_char_def
        upper_char_def is_digit_def)
  then have b: "clean match_base64 t2"
    unfolding t2_def
    by (rule clean_greplace_other[rotated 4])
      (simp_all add: avoids_base64 local_match_base64 inert_base64 lower_char_def b64_char_def
        upper_char_def is_digit_def)
  have g: "clean match_geometry t2"
    unfolding t2_def
    by (rule clean_greplace_self)
      (simp_all add: avoids_geometry local_match_geometry inert_geometry)
  have "greplace match_geometry ''[...GEOMETRY_DATA_HIDDEN...]''
          (greplace match_base64 ''<BASE64_DATA_HIDDEN>'' t2) = t2"
    by (simp add: greplace_clean[OF b] greplace_clean[OF g])
  then have "compressCodeForContext t2 = t2"
    by (simp add: compressCodeForContext_def)
  with c show ?thesis by simp
qed


end
